theory Spec2Isabelle
  imports Main
begin

section \<open>Python values\<close>

text \<open>
  The values that flow through \<^verbatim>\<open>create_bug_tickets.py\<close>: what \<^verbatim>\<open>response.json()\<close>
  decodes, what the script puts into request bodies, and the optional arguments
  (\<^verbatim>\<open>None\<close> or a string). A dict is kept as an association list in insertion order, its keys
  strings (every dict the script builds or decodes has string keys); a dict has no key twice.
  Numbers are integers. A character is a code point below 256.
\<close>

datatype pyval =
    PNone
  | PBool bool
  | PInt int
  | PStr string
  | PList "pyval list"
  | PDict "(string \<times> pyval) list"

text \<open>An argument annotated \<^verbatim>\<open>str | None\<close>.\<close>

definition opt :: "string option \<Rightarrow> pyval" where
  "opt a = (case a of None \<Rightarrow> PNone | Some s \<Rightarrow> PStr s)"

text \<open>
  Such an argument is provided when it is a string that is not empty: the values that
  \<^verbatim>\<open>if a:\<close> lets through.
\<close>

definition provided :: "string option \<Rightarrow> bool" where
  "provided a = (case a of None \<Rightarrow> False | Some s \<Rightarrow> s \<noteq> [])"

text \<open>Truth value testing, as \<^verbatim>\<open>if x:\<close> does it.\<close>

fun truthy :: "pyval \<Rightarrow> bool" where
  "truthy PNone = False"
| "truthy (PBool b) = b"
| "truthy (PInt n) = (n \<noteq> 0)"
| "truthy (PStr s) = (s \<noteq> [])"
| "truthy (PList xs) = (xs \<noteq> [])"
| "truthy (PDict kvs) = (kvs \<noteq> [])"

text \<open>\<^verbatim>\<open>d[k] = v\<close> on a dict: an existing key keeps its place, a new key goes last.\<close>

fun dict_set :: "'k \<Rightarrow> 'v \<Rightarrow> ('k \<times> 'v) list \<Rightarrow> ('k \<times> 'v) list" where
  "dict_set k v [] = [(k, v)]"
| "dict_set k v ((k', v') # kvs) =
     (if k' = k then (k, v) # kvs else (k', v') # dict_set k v kvs)"

section \<open>Formatted strings\<close>

fun str_nat :: "nat \<Rightarrow> string" where
  "str_nat n =
     (if n < 10 then [char_of (48 + n)]
      else str_nat (n div 10) @ [char_of (48 + n mod 10)])"

definition str_int :: "int \<Rightarrow> string" where
  "str_int i = (if i < 0 then CHR ''-'' # str_nat (nat (- i)) else str_nat (nat i))"

text \<open>
  An f-string is kept as the list of its parts. \<^verbatim>\<open>str()\<close> of a string is the string, of an
  integer its decimal digits. The \<^verbatim>\<open>repr\<close> of a list, a dict or a set is not spelled out: the
  part keeps the value. For a set of strings this leaves open the order in which Python
  lists the elements, which changes with the hash seed of the process.
\<close>

datatype part = Lit string | Repr pyval | ReprSet "string set"

type_synonym fstring = "part list"

fun fmt :: "pyval \<Rightarrow> part" where
  "fmt (PStr s) = Lit s"
| "fmt (PInt n) = Lit (str_int n)"
| "fmt (PBool b) = Lit (if b then ''True'' else ''False'')"
| "fmt PNone = Lit ''None''"
| "fmt v = Repr v"

text \<open>Building an f-string from its parts: neighbouring literal parts are one string.\<close>

fun fcons :: "part \<Rightarrow> fstring \<Rightarrow> fstring" where
  "fcons (Lit a) (Lit b # ps) = (if a @ b = [] then ps else Lit (a @ b) # ps)"
| "fcons (Lit a) ps = (if a = [] then ps else Lit a # ps)"
| "fcons p ps = p # ps"

definition fstr :: "part list \<Rightarrow> fstring" where
  "fstr ps = foldr fcons ps []"

definition dq :: char where
  "dq = CHR 0x22"

definition nl :: char where
  "nl = CHR 0x0A"

section \<open>Exceptions\<close>

text \<open>
  A ValueError carries its message, an f-string; \<open>ValueError s\<close> is the one whose message is
  the plain string \<open>s\<close>.
\<close>

datatype error =
    ValueErrorF fstring
  | TypeError
  | KeyError pyval
  | IndexError
  | AssertionError
  | AttributeError
  | NameError string
  | StopIteration
  | EOFError
  | OSError
  | SystemExit
  | RequestError string

abbreviation ValueError :: "string \<Rightarrow> error" where
  "ValueError s \<equiv> ValueErrorF [Lit s]"

type_synonym 'a result = "error + 'a"

definition res_bind :: "'a result \<Rightarrow> ('a \<Rightarrow> 'b result) \<Rightarrow> 'b result" where
  "res_bind r f = (case r of Inl e \<Rightarrow> Inl e | Inr x \<Rightarrow> f x)"

text \<open>\<^verbatim>\<open>x["k"]\<close> with a string key: only a dict can be subscripted by a string.\<close>

fun getitem :: "pyval \<Rightarrow> string \<Rightarrow> pyval result" where
  "getitem (PDict kvs) k =
     (case map_of kvs k of None \<Rightarrow> Inl (KeyError (PStr k)) | Some v \<Rightarrow> Inr v)"
| "getitem _ k = Inl TypeError"

text \<open>\<^verbatim>\<open>x[0]\<close>.\<close>

fun getitem0 :: "pyval \<Rightarrow> pyval result" where
  "getitem0 (PList []) = Inl IndexError"
| "getitem0 (PList (x # xs)) = Inr x"
| "getitem0 (PStr []) = Inl IndexError"
| "getitem0 (PStr (c # cs)) = Inr (PStr [c])"
| "getitem0 (PDict kvs) = Inl (KeyError (PInt 0))"
| "getitem0 _ = Inl TypeError"

text \<open>\<^verbatim>\<open>len(x)\<close>.\<close>

fun py_len :: "pyval \<Rightarrow> nat result" where
  "py_len (PList xs) = Inr (length xs)"
| "py_len (PStr s) = Inr (length s)"
| "py_len (PDict kvs) = Inr (length kvs)"
| "py_len _ = Inl TypeError"

text \<open>The items a \<^verbatim>\<open>for\<close> loop or a comprehension draws from \<^verbatim>\<open>x\<close>.\<close>

fun py_iter :: "pyval \<Rightarrow> pyval list result" where
  "py_iter (PList xs) = Inr xs"
| "py_iter (PStr s) = Inr (map (\<lambda>c. PStr [c]) s)"
| "py_iter (PDict kvs) = Inr (map (\<lambda>kv. PStr (fst kv)) kvs)"
| "py_iter _ = Inl TypeError"

text \<open>\<^verbatim>\<open>sep.join(parts)\<close>.\<close>

fun join :: "string \<Rightarrow> string list \<Rightarrow> string" where
  "join sep [] = []"
| "join sep [p] = p"
| "join sep (p # q # ps) = p @ sep @ join sep (q # ps)"

section \<open>Configuration and the issue type enumeration\<close>

record config =
  JIRA_EMAIL :: pyval
  JIRA_TOKEN :: pyval
  PROJECT_KEY :: string
  JIRA_BASE_URL :: string

text \<open>The settings as the source file has them.\<close>

definition source_config :: config where
  "source_config =
     \<lparr>JIRA_EMAIL = PNone, JIRA_TOKEN = PNone, PROJECT_KEY = ''DW'',
      JIRA_BASE_URL = ''https://joinhonor.atlassian.net''\<rparr>"

definition SEARCH_API_ENDPOINT :: string where
  "SEARCH_API_ENDPOINT = ''/rest/api/2/search''"

definition ISSUES_API_ENDPOINT :: string where
  "ISSUES_API_ENDPOINT = ''/rest/api/2/issue''"

definition BOARD_ENDPOINT :: string where
  "BOARD_ENDPOINT = ''/rest/agile/1.0/board''"

datatype IssueType =
    INITIATIVE | EPIC | STORY | TASK | BUG | SUBTASK | ENG_DESIGN | RELEASE
  | FEATURE_FLAG | DESIGN

fun enum_value :: "IssueType \<Rightarrow> string" where
  "enum_value INITIATIVE = ''Initiative''"
| "enum_value EPIC = ''Epic''"
| "enum_value STORY = ''Story''"
| "enum_value TASK = ''Task''"
| "enum_value BUG = ''Bug''"
| "enum_value SUBTASK = ''Sub-task''"
| "enum_value ENG_DESIGN = ''Eng Design''"
| "enum_value RELEASE = ''Release''"
| "enum_value FEATURE_FLAG = ''Feature Flag''"
| "enum_value DESIGN = ''Design''"

definition members :: "IssueType list" where
  "members =
     [INITIATIVE, EPIC, STORY, TASK, BUG, SUBTASK, ENG_DESIGN, RELEASE, FEATURE_FLAG, DESIGN]"

text \<open>\<^verbatim>\<open>IssueType(v)\<close>: the member whose value is \<^verbatim>\<open>v\<close>; \<^verbatim>\<open>None\<close> where Python raises ValueError.\<close>

fun IssueType_of :: "pyval \<Rightarrow> IssueType option" where
  "IssueType_of (PStr s) = find (\<lambda>t. enum_value t = s) members"
| "IssueType_of _ = None"

section \<open>The world outside the process\<close>

text \<open>
  A request as \<^verbatim>\<open>AuthenticatedRequest\<close> sends it. The Authorization header is kept as the
  text \<^verbatim>\<open>email:token\<close> that the source encodes in base 64.
\<close>

datatype request =
    GET fstring fstring "(string \<times> string) list"
  | POST fstring fstring pyval

fun is_POST :: "request \<Rightarrow> bool" where
  "is_POST (POST a u d) = True"
| "is_POST (GET a u ps) = False"

text \<open>What the script writes to standard output.\<close>

record kwargs =
  kw_project_key :: string
  kw_issue_type :: IssueType
  kw_summary :: pyval
  kw_description :: pyval
  kw_epic_key :: pyval
  kw_sprint_id :: pyval

datatype out =
    Print fstring
  | PPrint pyval
  | PPrintKwargs kwargs
  | Prompt string

text \<open>
  \<^item> \<open>net\<close>: the tracker's answers to the requests still to come, in order; \<open>Inl\<close> is a
    request that raises (a status that is not a success, a body that is not JSON);
  \<^item> \<open>sent\<close>: the requests made so far;
  \<^item> \<open>stdin\<close>: the lines the operator will type; \<open>stdout\<close>: what was printed;
  \<^item> \<open>jira_id\<close>: the attribute \<^verbatim>\<open>add_jira_id\<close> sets on a member of the enumeration;
  \<^item> \<open>files\<close>: the rows \<^verbatim>\<open>csv.reader\<close> reads from the file of a given name.
\<close>

record world =
  net :: "pyval result list"
  sent :: "request list"
  stdin :: "string list"
  stdout :: "out list"
  jira_id :: "IssueType \<Rightarrow> pyval option"
  files :: "string \<Rightarrow> string list list option"

text \<open>The world before anything has happened, with no answer, no input and no file.\<close>

definition quiet_world :: world where
  "quiet_world =
     \<lparr>net = [], sent = [], stdin = [], stdout = [], jira_id = (\<lambda>t. None),
      files = (\<lambda>f. None)\<rparr>"

type_synonym 'a io = "world \<Rightarrow> 'a result \<times> world"

definition io_bind :: "'a io \<Rightarrow> ('a \<Rightarrow> 'b io) \<Rightarrow> 'b io" where
  "io_bind m f w = (case m w of (Inl e, w') \<Rightarrow> (Inl e, w') | (Inr x, w') \<Rightarrow> f x w')"

definition io_return :: "'a \<Rightarrow> 'a io" where
  "io_return x w = (Inr x, w)"

definition io_raise :: "error \<Rightarrow> 'a io" where
  "io_raise e w = (Inl e, w)"

definition io_result :: "'a result \<Rightarrow> 'a io" where
  "io_result r w = (r, w)"

definition print :: "fstring \<Rightarrow> unit io" where
  "print s w = (Inr (), w\<lparr>stdout := stdout w @ [Print s]\<rparr>)"

section \<open>AuthenticatedRequest\<close>

definition credentials :: "config \<Rightarrow> fstring" where
  "credentials cfg = fstr [fmt (JIRA_EMAIL cfg), Lit '':'', fmt (JIRA_TOKEN cfg)]"

definition respond :: "request \<Rightarrow> pyval io" where
  "respond rq w =
     (let w' = w\<lparr>sent := sent w @ [rq]\<rparr> in
      case net w of
        [] \<Rightarrow> (Inl (RequestError ''no response''), w')
      | r # rs \<Rightarrow> (r, w'\<lparr>net := rs\<rparr>))"

definition http_get :: "config \<Rightarrow> fstring \<Rightarrow> (string \<times> string) list \<Rightarrow> pyval io" where
  "http_get cfg url params = respond (GET (credentials cfg) url params)"

definition http_post :: "config \<Rightarrow> fstring \<Rightarrow> pyval \<Rightarrow> pyval io" where
  "http_post cfg url data = respond (POST (credentials cfg) url data)"

section \<open>create_issue\<close>

text \<open>The dict \<^verbatim>\<open>data\<close> of \<^verbatim>\<open>create_issue\<close>, as it stands before the request.\<close>

definition issue_fields ::
  "string \<Rightarrow> IssueType \<Rightarrow> pyval \<Rightarrow> pyval \<Rightarrow> pyval \<Rightarrow> pyval \<Rightarrow> pyval \<Rightarrow> pyval
     \<Rightarrow> (string \<times> pyval) list" where
  "issue_fields project_key issue_type summary priority description parent_key epic_key sprint_id =
     (let data = [(''project'', PDict [(''key'', PStr project_key)]),
                  (''issuetype'', PDict [(''name'', PStr (enum_value issue_type))]),
                  (''summary'', summary)];
          data = (if truthy priority
                  then dict_set ''priority'' (PDict [(''name'', priority)]) data else data);
          data = (if truthy description then dict_set ''description'' description data else data);
          data = (if truthy parent_key then dict_set ''customfield_10009'' parent_key data else data);
          data = (if truthy epic_key then dict_set ''customfield_10008'' epic_key data else data);
          data = (if truthy sprint_id then dict_set ''customfield_10010'' sprint_id data else data)
      in data)"

definition create_issue ::
  "config \<Rightarrow> string \<Rightarrow> IssueType \<Rightarrow> pyval \<Rightarrow> pyval \<Rightarrow> pyval \<Rightarrow> pyval \<Rightarrow> pyval \<Rightarrow> pyval
     \<Rightarrow> fstring io" where
  "create_issue cfg project_key issue_type summary priority description parent_key epic_key sprint_id =
     (let data = issue_fields project_key issue_type summary priority description parent_key
                   epic_key sprint_id;
          url = fstr [Lit (JIRA_BASE_URL cfg), Lit ISSUES_API_ENDPOINT]
      in io_bind (http_post cfg url (PDict [(''fields'', PDict data)])) (\<lambda>data.
         io_bind (io_result (getitem data ''key'')) (\<lambda>key.
         io_return (fstr [Lit (JIRA_BASE_URL cfg), Lit ''/browse/'', fmt key]))))"

text \<open>The pattern \<^verbatim>\<open>if c: d[k] = v\<close>, named for the proofs.\<close>

definition set_if :: "bool \<Rightarrow> 'k \<Rightarrow> 'v \<Rightarrow> ('k \<times> 'v) list \<Rightarrow> ('k \<times> 'v) list" where
  "set_if c k v d = (if c then dict_set k v d else d)"

section \<open>Metadata discovery\<close>

text \<open>A comprehension whose element expression can raise: the first exception ends it.\<close>

primrec traverse :: "('a \<Rightarrow> 'b result) \<Rightarrow> 'a list \<Rightarrow> 'b list result" where
  "traverse f [] = Inr []"
| "traverse f (x # xs) =
     res_bind (f x) (\<lambda>y. res_bind (traverse f xs) (\<lambda>ys. Inr (y # ys)))"

text \<open>A \<^verbatim>\<open>for\<close> loop whose body acts on the world: an exception in the body ends the loop.\<close>

primrec for_each :: "('a \<Rightarrow> unit io) \<Rightarrow> 'a list \<Rightarrow> unit io" where
  "for_each body [] = io_return ()"
| "for_each body (x # xs) = io_bind (body x) (\<lambda>u. for_each body xs)"

text \<open>The loop of \<^verbatim>\<open>get_create_metadata\<close>, with the \<^verbatim>\<open>raise\<close> that follows it.\<close>

primrec find_project :: "string \<Rightarrow> pyval list \<Rightarrow> pyval result" where
  "find_project project_key [] = Inl (ValueError (project_key @ '' not found''))"
| "find_project project_key (project # data) =
     res_bind (getitem project ''key'') (\<lambda>k.
       if k = PStr project_key then Inr project else find_project project_key data)"

definition get_create_metadata :: "config \<Rightarrow> string option \<Rightarrow> pyval io" where
  "get_create_metadata cfg project_key =
     (let url = fstr [Lit (JIRA_BASE_URL cfg), Lit ISSUES_API_ENDPOINT, Lit ''/createmeta''] in
      io_bind (http_get cfg url []) (\<lambda>response.
      io_bind (io_result (getitem response ''projects'')) (\<lambda>data.
        case project_key of
          None \<Rightarrow> io_return data
        | Some pk \<Rightarrow> if pk = [] then io_return data
                     else io_result (res_bind (py_iter data) (find_project pk)))))"

text \<open>
  The body of the loop of \<^verbatim>\<open>get_issue_types\<close>. The bare \<^verbatim>\<open>except\<close> catches whatever the
  two lines of the \<^verbatim>\<open>try\<close> raise; the handler reads \<^verbatim>\<open>issue_type['name']\<close> again, outside
  any \<^verbatim>\<open>try\<close>.
\<close>

definition register_issue_type :: "pyval \<Rightarrow> unit io" where
  "register_issue_type issue_type w =
     (case res_bind (getitem issue_type ''name'') (\<lambda>name.
             case IssueType_of name of
               None \<Rightarrow> Inl (ValueError ''not a valid IssueType'')
             | Some member \<Rightarrow> res_bind (getitem issue_type ''id'') (\<lambda>i. Inr (member, i))) of
        Inr (member, i) \<Rightarrow> (Inr (), w\<lparr>jira_id := (jira_id w)(member \<mapsto> i)\<rparr>)
      | Inl e \<Rightarrow>
          io_bind (io_result (getitem issue_type ''name'')) (\<lambda>name.
            print (fstr [fmt name, Lit '' is not a known IssueType value''])) w)"

definition get_issue_types :: "config \<Rightarrow> string \<Rightarrow> pyval io" where
  "get_issue_types cfg project_key =
     io_bind (get_create_metadata cfg (Some project_key)) (\<lambda>data.
     io_bind (io_result (res_bind (getitem data ''issuetypes'') py_iter)) (\<lambda>issue_types.
     io_bind (for_each register_issue_type issue_types) (\<lambda>u.
     io_result (getitem data ''issuetypes''))))"

primrec filter_required :: "pyval list \<Rightarrow> pyval list result" where
  "filter_required [] = Inr []"
| "filter_required (f # fs) =
     res_bind (getitem f ''required'') (\<lambda>r.
     res_bind (filter_required fs) (\<lambda>kept. Inr (if truthy r then f # kept else kept)))"

definition field_summary :: "pyval \<Rightarrow> pyval result" where
  "field_summary f =
     res_bind (getitem f ''name'') (\<lambda>name.
     res_bind (getitem f ''key'') (\<lambda>key.
     res_bind (getitem f ''required'') (\<lambda>required.
     res_bind (res_bind (getitem f ''schema'') (\<lambda>s. getitem s ''type'')) (\<lambda>schemaType.
     res_bind (getitem f ''operations'') (\<lambda>operations.
     Inr (PDict [(''name'', name), (''key'', key), (''required'', required),
                 (''schemaType'', schemaType), (''operations'', operations)]))))))"

definition get_create_field_metadata :: "config \<Rightarrow> string \<Rightarrow> IssueType \<Rightarrow> pyval io" where
  "get_create_field_metadata cfg project_key issue_type w =
     (case jira_id w issue_type of
        None \<Rightarrow> (Inl AttributeError, w)
      | Some jid \<Rightarrow>
         (let url = fstr [Lit (JIRA_BASE_URL cfg), Lit ''/rest/api/3/issue/createmeta/'',
                          Lit project_key, Lit ''/issuetypes/'', fmt jid] in
          io_bind (http_get cfg url []) (\<lambda>data.
          io_bind (io_result (res_bind (res_bind (getitem data ''fields'') py_iter)
                                filter_required)) (\<lambda>required_fields.
          io_bind (io_result (traverse (\<lambda>f. getitem f ''key'') required_fields)) (\<lambda>keys.
          io_bind (print (fstr [Lit ''Required fields: '', fmt (PList keys)])) (\<lambda>u.
          io_result (res_bind (res_bind (getitem data ''fields'') py_iter) (\<lambda>fs.
                     res_bind (traverse field_summary fs) (\<lambda>r. Inr (PList r)))))))) w))"

section \<open>get_board_id\<close>

text \<open>
  \<^verbatim>\<open>str(object, encoding)\<close> decodes a bytes-like object. The values decoded from JSON are
  never bytes-like, so the call raises: ValueError for an encoding with a null character
  (the arguments are converted first), TypeError otherwise.
\<close>

definition str2 :: "pyval \<Rightarrow> pyval \<Rightarrow> string result" where
  "str2 object encoding =
     (case encoding of
        PStr e \<Rightarrow> if CHR 0x00 \<in> set e then Inl (ValueError ''embedded null character'')
                  else Inl TypeError
      | _ \<Rightarrow> Inl TypeError)"

definition board_label :: "pyval \<Rightarrow> string result" where
  "board_label board =
     res_bind (getitem board ''name'') (\<lambda>name.
     res_bind (getitem board ''id'') (\<lambda>i. str2 name i))"

text \<open>\<^verbatim>\<open>get_board_id\<close> from the decoded response on.\<close>

definition board_id_of :: "pyval \<Rightarrow> pyval result" where
  "board_id_of data =
     res_bind (getitem data ''values'') (\<lambda>boards.
     res_bind (py_len boards) (\<lambda>n.
     if n \<noteq> 1 then
       res_bind (py_iter boards) (\<lambda>items.
       res_bind (traverse board_label items) (\<lambda>labels.
       let board_names = join '', '' labels in
       Inl (ValueError (''Found '' @ str_nat n @ '' boards: '' @ board_names @ ''. ''
                        @ ''Try setting the --board_id option directly''))))
     else if n \<noteq> 1 then Inl AssertionError
     else res_bind (getitem0 boards) (\<lambda>board. getitem board ''id'')))"

definition get_board_id :: "config \<Rightarrow> string \<Rightarrow> string \<Rightarrow> pyval io" where
  "get_board_id cfg project_key board_type =
     (let url = fstr [Lit (JIRA_BASE_URL cfg), Lit BOARD_ENDPOINT];
          params = [(''projectKeyOrId'', project_key), (''type'', board_type)] in
      io_bind (http_get cfg url params) (\<lambda>data. io_result (board_id_of data)))"

section \<open>get_current_sprint_id\<close>

fun is_substring :: "string \<Rightarrow> string \<Rightarrow> bool" where
  "is_substring k [] = (k = [])"
| "is_substring k (c # s) = (take (length k) (c # s) = k \<or> is_substring k s)"

text \<open>\<^verbatim>\<open>k in x\<close> for a string \<^verbatim>\<open>k\<close>.\<close>

fun contains_str :: "pyval \<Rightarrow> string \<Rightarrow> bool result" where
  "contains_str (PDict kvs) k = Inr (map_of kvs k \<noteq> None)"
| "contains_str (PList xs) k = Inr (PStr k \<in> set xs)"
| "contains_str (PStr s) k = Inr (is_substring k s)"
| "contains_str _ k = Inl TypeError"

text \<open>
  \<^verbatim>\<open>get_current_sprint_id\<close> from the decoded response on. The function has no parameter or
  local named \<^verbatim>\<open>project_key\<close>: its last line reads the module-level name, which is bound
  only once the script's main block has run its line \<^verbatim>\<open>project_key = PROJECT_KEY\<close>.
  \<open>None\<close> is the name not bound.
\<close>

definition sprint_id_of :: "string option \<Rightarrow> pyval \<Rightarrow> pyval result" where
  "sprint_id_of project_key data =
     res_bind (contains_str data ''values'') (\<lambda>has_values.
     res_bind (if has_values
               then res_bind (res_bind (getitem data ''values'') py_len) (\<lambda>n. Inr (n > 0))
               else Inr False) (\<lambda>active.
     if active
     then res_bind (res_bind (getitem data ''values'') getitem0) (\<lambda>sprint. getitem sprint ''id'')
     else (case project_key of
             None \<Rightarrow> Inl (NameError ''project_key'')
           | Some pk \<Rightarrow> Inl (ValueError (''No active sprint found for '' @ pk)))))"

definition get_current_sprint_id :: "config \<Rightarrow> string option \<Rightarrow> fstring \<Rightarrow> pyval io" where
  "get_current_sprint_id cfg project_key board_id =
     (let url = fstr ([Lit (JIRA_BASE_URL cfg), Lit BOARD_ENDPOINT, Lit ''/''] @ board_id
                       @ [Lit ''/sprint'']);
          params = [(''state'', ''active'')] in
      io_bind (http_get cfg url params) (\<lambda>data. io_result (sprint_id_of project_key data)))"

section \<open>get_issues and get_issue\<close>

text \<open>
  \<^verbatim>\<open>datetime.fromisoformat\<close> is a parameter of the model. A datetime is a point of time in
  microseconds, naive or aware of its offset; comparing a naive with an aware one raises
  TypeError, so \<^verbatim>\<open>sorted\<close> raises where the keys are of both kinds. \<^verbatim>\<open>sorted\<close> is stable.
\<close>

datatype datetime = Naive int | Aware int

fun instant :: "datetime \<Rightarrow> int" where
  "instant (Naive t) = t"
| "instant (Aware t) = t"

fun is_aware :: "datetime \<Rightarrow> bool" where
  "is_aware (Naive t) = False"
| "is_aware (Aware t) = True"

definition sorted_issues :: "(pyval \<Rightarrow> datetime result) \<Rightarrow> pyval list \<Rightarrow> pyval list result" where
  "sorted_issues fromisoformat issues =
     res_bind (traverse (\<lambda>issue. res_bind (getitem issue ''updated'') fromisoformat) issues)
       (\<lambda>keys.
          if list_ex is_aware keys \<and> list_ex (\<lambda>k. \<not> is_aware k) keys then Inl TypeError
          else Inr (map snd (sort_key (\<lambda>kx. instant (fst kx)) (zip keys issues))))"

text \<open>
  \<open>statuses\<close> holds the \<^verbatim>\<open>.value\<close> of each status; an argument that is \<^verbatim>\<open>None\<close> is \<open>None\<close>.
\<close>

definition jql_of ::
  "string option \<Rightarrow> string option \<Rightarrow> bool \<Rightarrow> string list option \<Rightarrow> string list option
     \<Rightarrow> string" where
  "jql_of assignee project in_current_sprint statuses keys =
     (let jql_parts = [];
          jql_parts = (case assignee of
                         None \<Rightarrow> jql_parts
                       | Some a \<Rightarrow> if a = [] then jql_parts
                                   else jql_parts @ [''assignee='' @ a]);
          jql_parts = (case project of
                         None \<Rightarrow> jql_parts
                       | Some p \<Rightarrow> if p = [] then jql_parts
                                   else jql_parts @ [''project = '' @ p]);
          jql_parts = (if in_current_sprint then jql_parts @ [''sprint IN openSprints()'']
                       else jql_parts);
          jql_parts = (case statuses of
                         None \<Rightarrow> jql_parts
                       | Some ss \<Rightarrow> if ss = [] then jql_parts
                                    else jql_parts @ [''status IN ('' @ join '', '' ss @ '')'']);
          jql_parts = (case keys of
                         None \<Rightarrow> jql_parts
                       | Some [] \<Rightarrow> jql_parts
                       | Some [k] \<Rightarrow> jql_parts @ [''issueKey = '' @ [dq] @ k @ [dq]]
                       | Some ks \<Rightarrow>
                           jql_parts @ [''issueKey IN (''
                             @ join '', '' (map (\<lambda>k. [dq] @ k @ [dq]) ks) @ '')''])
      in join '' AND '' jql_parts)"

definition get_issues ::
  "config \<Rightarrow> (pyval \<Rightarrow> datetime result) \<Rightarrow> string option \<Rightarrow> string option \<Rightarrow> bool
     \<Rightarrow> string list option \<Rightarrow> string list option \<Rightarrow> pyval list io" where
  "get_issues cfg fromisoformat assignee project in_current_sprint statuses keys =
     (let params = [(''jql'', jql_of assignee project in_current_sprint statuses keys)];
          url = fstr [Lit (JIRA_BASE_URL cfg), Lit SEARCH_API_ENDPOINT] in
      io_bind (http_get cfg url params) (\<lambda>data.
      io_result (res_bind (res_bind (getitem data ''issues'') py_iter)
                   (sorted_issues fromisoformat))))"

definition get_issue :: "config \<Rightarrow> (pyval \<Rightarrow> datetime result) \<Rightarrow> string \<Rightarrow> pyval io" where
  "get_issue cfg fromisoformat key =
     io_bind (get_issues cfg fromisoformat None None False None (Some [key])) (\<lambda>issues.
       if length issues \<noteq> 1 then io_raise AssertionError
       else (case issues of [] \<Rightarrow> io_raise IndexError | issue # others \<Rightarrow> io_return issue))"

section \<open>CSV ingestion\<close>

text \<open>
  The file is given as the rows \<^verbatim>\<open>csv.reader\<close> yields, each a list of cells. A row of
  \<^verbatim>\<open>csv.DictReader\<close> is a dict from the field names to a cell, or to \<^verbatim>\<open>None\<close> (here \<open>None\<close>)
  where the row is shorter than the header; the cells beyond the header are filed under
  the key \<^verbatim>\<open>None\<close> (here \<open>rest\<close>).
\<close>

record row =
  named :: "(string \<times> string option) list"
  rest :: "string list option"

definition row_dict :: "string list \<Rightarrow> string list \<Rightarrow> row" where
  "row_dict fieldnames cells =
     (let d = fold (\<lambda>kv. dict_set (fst kv) (Some (snd kv))) (zip fieldnames cells) [];
          lf = length fieldnames;
          lr = length cells
      in if lf < lr then \<lparr>named = d, rest = Some (drop lf cells)\<rparr>
         else if lf > lr
         then \<lparr>named = fold (\<lambda>key. dict_set key None) (drop lr fieldnames) d, rest = None\<rparr>
         else \<lparr>named = d, rest = None\<rparr>)"

text \<open>The rows of \<^verbatim>\<open>csv.DictReader(f)\<close>: the first row names the fields, empty rows are skipped.\<close>

fun dict_reader :: "string list list \<Rightarrow> row list" where
  "dict_reader [] = []"
| "dict_reader (fieldnames # data_rows) =
     map (row_dict fieldnames) (filter (\<lambda>cells. cells \<noteq> []) data_rows)"

text \<open>\<^verbatim>\<open>row[k]\<close>.\<close>

definition row_get :: "row \<Rightarrow> string \<Rightarrow> string option result" where
  "row_get r k = (case map_of (named r) k of None \<Rightarrow> Inl (KeyError (PStr k)) | Some v \<Rightarrow> Inr v)"

definition expected_cols :: "string list" where
  "expected_cols =
     [''Priority'', ''Description of issue'', ''Additional notes'', ''Platform/URL'', ''Title'']"

text \<open>
  The checks on the header row; \<^verbatim>\<open>len(set(cols))\<close> is \<open>length (remdups cols)\<close>. The message
  for missing columns is the f-string that shows the set \<^verbatim>\<open>missing_cols\<close>.
\<close>

definition validate_columns :: "string list \<Rightarrow> unit result" where
  "validate_columns header =
     (let cols = filter (\<lambda>c. c \<noteq> []) header in
      if length (remdups cols) \<noteq> length cols
      then Inl (ValueError ''One or more columns in csv is repeated'')
      else let missing_cols = set expected_cols - set cols in
           if missing_cols \<noteq> {}
           then Inl (ValueErrorF (fstr [Lit ''Expected columns are missing from csv: '',
                                        ReprSet missing_cols]))
           else Inr ())"

text \<open>The loop over the reader: \<^verbatim>\<open>matching_rows\<close> is the accumulator.\<close>

fun select_rows :: "string \<Rightarrow> row list \<Rightarrow> row list \<Rightarrow> row list result" where
  "select_rows wanted [] matching_rows = Inr matching_rows"
| "select_rows wanted (r # rows) matching_rows =
     (case row_get r ''Priority'' of
        Inl e \<Rightarrow> Inl e
      | Inr priority \<Rightarrow>
          select_rows wanted rows
            (if priority = Some wanted then matching_rows @ [r] else matching_rows))"

text \<open>The \<^verbatim>\<open>with open(...)\<close> block: the header is checked, then the file is read again.\<close>

definition read_matching_rows :: "string \<Rightarrow> string \<Rightarrow> row list io" where
  "read_matching_rows filename wanted w =
     (case files w filename of
        None \<Rightarrow> (Inl OSError, w)
      | Some lines \<Rightarrow>
          (case lines of
             [] \<Rightarrow> (Inl StopIteration, w)
           | header # data_rows \<Rightarrow>
               (res_bind (validate_columns header)
                  (\<lambda>u. select_rows wanted (dict_reader lines) []), w)))"

section \<open>The interactive driver\<close>

record args =
  arg_filename :: string
  arg_epic :: "string option"
  arg_board_id :: "string option"
  arg_priority :: string
  arg_list_fields :: bool
  arg_add_to_sprint :: bool

text \<open>\<^verbatim>\<open>description += s\<close>: \<^verbatim>\<open>None\<close> has no \<^verbatim>\<open>+\<close>.\<close>

definition iadd :: "string option \<Rightarrow> string \<Rightarrow> string option result" where
  "iadd description s =
     (case description of None \<Rightarrow> Inl TypeError | Some d \<Rightarrow> Inr (Some (d @ s)))"

text \<open>The first lines of the loop body: from a row to the arguments of \<^verbatim>\<open>create_issue\<close>.\<close>

definition ticket_draft :: "string \<Rightarrow> string option \<Rightarrow> pyval \<Rightarrow> row \<Rightarrow> kwargs result" where
  "ticket_draft project_key epic sprint_id r =
     res_bind (row_get r ''Description of issue'') (\<lambda>description.
     res_bind (row_get r ''Title'') (\<lambda>t.
     let title = (if provided t then t else description) in
     res_bind (row_get r ''Additional notes'') (\<lambda>notes.
     res_bind (case notes of
                 None \<Rightarrow> Inr description
               | Some n \<Rightarrow> if n = [] then Inr description
                           else iadd description
                                  ([nl, nl] @ ''**Additional notes**:'' @ [nl] @ n))
       (\<lambda>description.
     res_bind (row_get r ''Platform/URL'') (\<lambda>url.
     res_bind (case url of
                 None \<Rightarrow> Inr description
               | Some u \<Rightarrow> if u = [] then Inr description
                           else iadd description ([nl, nl] @ ''**Platform/URL**: '' @ u))
       (\<lambda>description.
     Inr \<lparr>kw_project_key = project_key, kw_issue_type = BUG, kw_summary = opt title,
          kw_description = opt description, kw_epic_key = opt epic,
          kw_sprint_id = sprint_id\<rparr>))))))"

text \<open>\<^verbatim>\<open>str.strip()\<close> and \<^verbatim>\<open>str.lower()\<close> on code points below 256.\<close>

definition isspace :: "char \<Rightarrow> bool" where
  "isspace c =
     (let n = (of_char c :: nat) in
      (9 \<le> n \<and> n \<le> 13) \<or> (28 \<le> n \<and> n \<le> 32) \<or> n = 133 \<or> n = 160)"

definition strip :: "string \<Rightarrow> string" where
  "strip s = rev (dropWhile isspace (rev (dropWhile isspace s)))"

definition lower_char :: "char \<Rightarrow> char" where
  "lower_char c =
     (let n = (of_char c :: nat) in
      if (65 \<le> n \<and> n \<le> 90) \<or> (192 \<le> n \<and> n \<le> 214) \<or> (216 \<le> n \<and> n \<le> 222)
      then char_of (n + 32) else c)"

definition lower :: "string \<Rightarrow> string" where
  "lower s = map lower_char s"

text \<open>\<^verbatim>\<open>should_create.strip().lower() in ("y", "")\<close>.\<close>

definition confirmed :: "string \<Rightarrow> bool" where
  "confirmed should_create = (lower (strip should_create) \<in> set [''y'', ''''])"

definition py_input :: "string \<Rightarrow> string io" where
  "py_input prompt w =
     (let w' = w\<lparr>stdout := stdout w @ [Prompt prompt]\<rparr> in
      case stdin w of
        [] \<Rightarrow> (Inl EOFError, w')
      | l # ls \<Rightarrow> (Inr l, w'\<lparr>stdin := ls\<rparr>))"

definition pprint :: "pyval \<Rightarrow> unit io" where
  "pprint v w = (Inr (), w\<lparr>stdout := stdout w @ [PPrint v]\<rparr>)"

definition pprint_kwargs :: "kwargs \<Rightarrow> unit io" where
  "pprint_kwargs kw w = (Inr (), w\<lparr>stdout := stdout w @ [PPrintKwargs kw]\<rparr>)"

text \<open>The body of the loop over \<^verbatim>\<open>matching_rows\<close>.\<close>

definition process_row :: "config \<Rightarrow> string \<Rightarrow> string option \<Rightarrow> pyval \<Rightarrow> row \<Rightarrow> unit io" where
  "process_row cfg project_key epic sprint_id r =
     io_bind (io_result (ticket_draft project_key epic sprint_id r)) (\<lambda>kw.
     io_bind (print [Lit (nl # ''Create a bug with the following data?'')]) (\<lambda>u.
     io_bind (pprint_kwargs kw) (\<lambda>u.
     io_bind (py_input ''Y/n > '') (\<lambda>should_create.
       if confirmed should_create
       then io_bind (create_issue cfg (kw_project_key kw) (kw_issue_type kw) (kw_summary kw)
                       PNone (kw_description kw) PNone (kw_epic_key kw) (kw_sprint_id kw))
              (\<lambda>issue_url. print issue_url)
       else print [Lit ''Skipping.'']))))"

definition process_rows :: "config \<Rightarrow> string \<Rightarrow> string option \<Rightarrow> pyval \<Rightarrow> row list \<Rightarrow> unit io" where
  "process_rows cfg project_key epic sprint_id rows =
     for_each (process_row cfg project_key epic sprint_id) rows"

text \<open>
  The main block up to the line that opens the file: issue type discovery, the
  \<^verbatim>\<open>--list_fields\<close> mode, and the sprint to add the tickets to. Its value is \<^verbatim>\<open>sprint_id\<close>.
\<close>

definition resolve_sprint :: "config \<Rightarrow> args \<Rightarrow> pyval io" where
  "resolve_sprint cfg a =
     (let project_key = PROJECT_KEY cfg in
      io_bind (if PROJECT_KEY cfg = [] \<or> \<not> truthy (JIRA_TOKEN cfg)
               then print [Lit ''Set your API token and project in `Config`'']
               else io_return ()) (\<lambda>u.
      io_bind (get_issue_types cfg project_key) (\<lambda>types.
        if arg_list_fields a
        then io_bind (get_create_field_metadata cfg project_key BUG) (\<lambda>data.
             io_bind (pprint data) (\<lambda>u. io_raise SystemExit))
        else if arg_add_to_sprint a
        then io_bind (print [Lit ''Getting current sprint...'']) (\<lambda>u.
             io_bind (if provided (arg_board_id a) then io_return (opt (arg_board_id a))
                      else get_board_id cfg project_key ''scrum'') (\<lambda>board_id.
             get_current_sprint_id cfg (Some project_key) (fstr [fmt board_id])))
        else io_return PNone)))"

definition main :: "config \<Rightarrow> args \<Rightarrow> unit io" where
  "main cfg a =
     io_bind (resolve_sprint cfg a) (\<lambda>sprint_id.
     io_bind (print (fstr [Lit ''Reading CSV '', Lit (arg_filename a)])) (\<lambda>u.
     io_bind (read_matching_rows (arg_filename a) (arg_priority a)) (\<lambda>matching_rows.
     io_bind (print (fstr [Lit ''Found '', Lit (str_nat (length matching_rows)),
                           Lit '' bugs with priority '', Lit (arg_priority a),
                           Lit ''. Creating tickets...''])) (\<lambda>u.
     process_rows cfg (PROJECT_KEY cfg) (arg_epic a) sprint_id matching_rows))))"

section \<open>Examples\<close>

definition three_rows :: "string list list" where
  "three_rows =
     [[''Priority'', ''Description of issue'', ''Additional notes'', ''Platform/URL'', ''Title''],
      [''Stop ship'', ''Login fails'', ''Repro on Android'', ''http://x'', ''Login''],
      [''Nice to have'', ''Typo in footer'', [], [], []],
      [''Stop ship'', ''Crash on save'', [], [], ''Crash'']]"

definition bugs_world :: world where
  "bugs_world = quiet_world\<lparr>files := (\<lambda>f. if f = ''bugs.csv'' then Some three_rows else None)\<rparr>"

text \<open>
  The two optional sections of a ticket description, as the specification words them: each
  is there when its cell is a string that is not empty.
\<close>

definition notes_section :: "string option \<Rightarrow> string" where
  "notes_section notes =
     (case notes of
        None \<Rightarrow> []
      | Some n \<Rightarrow> if n = [] then [] else [nl, nl] @ ''**Additional notes**:'' @ [nl] @ n)"

definition url_section :: "string option \<Rightarrow> string" where
  "url_section url =
     (case url of
        None \<Rightarrow> []
      | Some u \<Rightarrow> if u = [] then [] else [nl, nl] @ ''**Platform/URL**: '' @ u)"

definition login_row :: row where
  "login_row =
     \<lparr>named = [(''Priority'', Some ''Stop ship''), (''Description of issue'', Some ''Login fails''),
               (''Additional notes'', Some ''Repro on Android''),
               (''Platform/URL'', Some ''http://x''), (''Title'', Some ''Login'')],
      rest = None\<rparr>"

definition crash_row :: row where
  "crash_row =
     \<lparr>named = [(''Priority'', Some ''Stop ship''), (''Description of issue'', Some ''Crash on save''),
               (''Additional notes'', Some []), (''Platform/URL'', Some []),
               (''Title'', Some [])],
      rest = None\<rparr>"

definition padded_header :: "string list" where
  "padded_header =
     [''Priority'', [], ''Description of issue'', ''Additional notes'', ''Platform/URL'',
      ''Title'', [], []]"

section \<open>Notions for the statements\<close>

text \<open>The ticket-creation calls made so far: the POST requests.\<close>

definition posts :: "world \<Rightarrow> request list" where
  "posts w = filter is_POST (sent w)"

text \<open>An action that creates no ticket and leaves the files as they are.\<close>

definition reads_only :: "'a io \<Rightarrow> bool" where
  "reads_only m = (\<forall>w. posts (snd (m w)) = posts w \<and> files (snd (m w)) = files w)"

text \<open>
  The message of the validation error for a header that fails the checks: the message for
  a repeated column, or else the message that shows the set of the required columns the
  header lacks.
\<close>

definition header_error :: "string list \<Rightarrow> fstring" where
  "header_error header =
     (if \<not> distinct (filter (\<lambda>c. c \<noteq> []) header)
      then [Lit ''One or more columns in csv is repeated'']
      else [Lit ''Expected columns are missing from csv: '',
            ReprSet (set expected_cols - set header)])"

definition doubled_header :: "string list" where
  "doubled_header = [''Priority'', ''Title'', ''Priority'']"

definition short_header :: "string list" where
  "short_header = [''Priority'', ''Description of issue'', ''Platform/URL'']"

definition bugs_args :: args where
  "bugs_args =
     \<lparr>arg_filename = ''bugs.csv'', arg_epic = None, arg_board_id = None,
      arg_priority = ''Stop ship'', arg_list_fields = False, arg_add_to_sprint = False\<rparr>"

text \<open>A tracker that knows the project \<^verbatim>\<open>DW\<close> with the issue type \<^verbatim>\<open>Bug\<close>.\<close>

definition createmeta_response :: pyval where
  "createmeta_response =
     PDict [(''projects'',
             PList [PDict [(''key'', PStr ''DW''),
                           (''issuetypes'',
                            PList [PDict [(''name'', PStr ''Bug''), (''id'', PStr ''10004'')]])]])]"

definition short_header_world :: world where
  "short_header_world =
     quiet_world\<lparr>net := [Inr createmeta_response],
       files := (\<lambda>f. if f = ''bugs.csv'' then Some [short_header, [''Stop ship'', ''x'', ''y'']]
                      else None)\<rparr>"

definition doubled_header_world :: world where
  "doubled_header_world =
     quiet_world\<lparr>files := (\<lambda>f. if f = ''bugs.csv'' then Some [doubled_header] else None)\<rparr>"

definition two_boards_response :: pyval where
  "two_boards_response =
     PDict [(''values'',
             PList [PDict [(''id'', PInt 7), (''name'', PStr ''DW board'')],
                    PDict [(''id'', PInt 9), (''name'', PStr ''DW bugs'')]])]"

definition one_sprint_response :: pyval where
  "one_sprint_response =
     PDict [(''values'', PList [PDict [(''id'', PInt 42), (''name'', PStr ''Sprint 9'')]])]"

definition no_sprint_response :: pyval where
  "no_sprint_response = PDict [(''values'', PList [])]"

text \<open>
  \<^verbatim>\<open>getIssue(key)\<close> in the specification's words: the search with \<^verbatim>\<open>keys = [key]\<close> and no
  other criterion; its one result is returned, and any other number of results fails the
  assertion.
\<close>

definition get_issue_spec :: "config \<Rightarrow> (pyval \<Rightarrow> datetime result) \<Rightarrow> string \<Rightarrow> pyval io" where
  "get_issue_spec cfg fromisoformat key w =
     (case get_issues cfg fromisoformat None None False None (Some [key]) w of
        (Inl e, w') \<Rightarrow> (Inl e, w')
      | (Inr [issue], w') \<Rightarrow> (Inr issue, w')
      | (Inr issues, w') \<Rightarrow> (Inl AssertionError, w'))"

text \<open>A stand-in for \<^verbatim>\<open>datetime.fromisoformat\<close> in the examples: a string gives an aware time.\<close>

fun toy_fromisoformat :: "pyval \<Rightarrow> datetime result" where
  "toy_fromisoformat (PStr s) = Inr (Aware (int (length s)))"
| "toy_fromisoformat v = Inl TypeError"

definition one_issue_response :: pyval where
  "one_issue_response =
     PDict [(''issues'', PList [PDict [(''key'', PStr ''DW-216''), (''updated'', PStr ''2024'')]])]"

definition no_issue_response :: pyval where
  "no_issue_response = PDict [(''issues'', PList [])]"

text \<open>
  For the statement about issue type discovery: the warnings for the entries whose name is
  no value of the enumeration, in the order of the entries, and the \<^verbatim>\<open>id\<close> of the last entry
  that carries the name of a given member.
\<close>

definition unknown_warnings :: "pyval list \<Rightarrow> out list" where
  "unknown_warnings entries =
     concat (map (\<lambda>e. case getitem e ''name'' of
                         Inl x \<Rightarrow> []
                       | Inr n \<Rightarrow> (case IssueType_of n of
                                     Some t \<Rightarrow> []
                                   | None \<Rightarrow> [Print (fstr [fmt n,
                                                Lit '' is not a known IssueType value''])]))
                 entries)"

definition last_id :: "IssueType \<Rightarrow> pyval list \<Rightarrow> pyval option" where
  "last_id t entries =
     (case filter (\<lambda>e. getitem e ''name'' = Inr (PStr (enum_value t))) (rev entries) of
        [] \<Rightarrow> None
      | e # es \<Rightarrow> (case getitem e ''id'' of Inl x \<Rightarrow> None | Inr i \<Rightarrow> Some i))"

text \<open>An entry of the remote list of issue types that has a name and an id.\<close>

definition named_entry :: "pyval \<Rightarrow> bool" where
  "named_entry e = (\<exists>n i. getitem e ''name'' = Inr n \<and> getitem e ''id'' = Inr i)"

definition remote_issue_types :: "pyval list" where
  "remote_issue_types =
     [PDict [(''name'', PStr ''Bug''), (''id'', PStr ''10004'')],
      PDict [(''name'', PStr ''Spike''), (''id'', PStr ''10017'')],
      PDict [(''name'', PStr ''Epic''), (''id'', PStr ''10000'')]]"

definition discovery_world :: world where
  "discovery_world =
     quiet_world\<lparr>net :=
       [Inr (PDict [(''projects'',
               PList [PDict [(''key'', PStr ''DW''),
                             (''issuetypes'', PList remote_issue_types)]])])]\<rparr>"

text \<open>
  For the statement about the confirmation loop: the request that creates the ticket of a
  draft, and the world once the draft was shown and the operator has answered.
\<close>

definition ticket_request :: "config \<Rightarrow> kwargs \<Rightarrow> request" where
  "ticket_request cfg kw =
     POST (credentials cfg) (fstr [Lit (JIRA_BASE_URL cfg), Lit ISSUES_API_ENDPOINT])
       (PDict [(''fields'',
                PDict (issue_fields (kw_project_key kw) (kw_issue_type kw) (kw_summary kw) PNone
                         (kw_description kw) PNone (kw_epic_key kw) (kw_sprint_id kw)))])"

definition asked :: "kwargs \<Rightarrow> string list \<Rightarrow> world \<Rightarrow> world" where
  "asked kw later w =
     w\<lparr>stdout := stdout w @ [Print [Lit (nl # ''Create a bug with the following data?'')],
                             PPrintKwargs kw, Prompt ''Y/n > ''],
       stdin := later\<rparr>"

text \<open>Two rows, an operator who answers \<^verbatim>\<open>Y\<close> and then \<^verbatim>\<open>no\<close>, a tracker that creates DW-100.\<close>

definition ticket_world :: world where
  "ticket_world = quiet_world\<lparr>net := [Inr (PDict [(''key'', PStr ''DW-100'')])],
                              stdin := ['' Y'', ''no'']\<rparr>"

definition login_draft :: kwargs where
  "login_draft =
     \<lparr>kw_project_key = ''DW'', kw_issue_type = BUG, kw_summary = PStr ''Login'',
      kw_description = PStr (''Login fails'' @ [nl, nl] @ ''**Additional notes**:'' @ [nl]
                             @ ''Repro on Android'' @ [nl, nl] @ ''**Platform/URL**: http://x''),
      kw_epic_key = PNone, kw_sprint_id = PNone\<rparr>"

definition crash_draft :: kwargs where
  "crash_draft =
     \<lparr>kw_project_key = ''DW'', kw_issue_type = BUG, kw_summary = PStr ''Crash on save'',
      kw_description = PStr ''Crash on save'', kw_epic_key = PNone, kw_sprint_id = PNone\<rparr>"

section \<open>Properties of the dict operations\<close>

lemma map_of_dict_set:
  "map_of (dict_set k v kvs) k' = (if k' = k then Some v else map_of kvs k')"
  by (induction kvs) auto

lemma keys_dict_set:
  "fst ` set (dict_set k v kvs) = insert k (fst ` set kvs)"
proof (induction kvs)
  case Nil
  then show ?case by simp
next
  case (Cons kv kvs)
  obtain k' v' where kv: "kv = (k', v')" by (cases kv)
  show ?case
  proof (cases "k' = k")
    case True
    then show ?thesis by (simp add: kv)
  next
    case False
    then show ?thesis using Cons.IH by (simp add: kv insert_commute)
  qed
qed

lemma distinct_dict_set:
  "distinct (map fst kvs) \<Longrightarrow> distinct (map fst (dict_set k v kvs))"
proof (induction kvs)
  case Nil
  then show ?case by simp
next
  case (Cons kv kvs)
  obtain k' v' where kv: "kv = (k', v')" by (cases kv)
  have "k' \<notin> fst ` set (dict_set k v kvs)" if "k' \<noteq> k"
    using that Cons.prems by (simp add: keys_dict_set kv)
  with Cons show ?case by (auto simp: kv)
qed

lemma truthy_opt: "truthy (opt a) = provided a"
  by (cases a) (simp_all add: opt_def provided_def)

lemma map_of_set_if:
  "map_of (set_if c k v d) k' = (if c \<and> k' = k then Some v else map_of d k')"
  by (simp add: map_of_dict_set set_if_def)

lemma distinct_set_if:
  "distinct (map fst d) \<Longrightarrow> distinct (map fst (set_if c k v d))"
  by (simp add: distinct_dict_set set_if_def)

section \<open>create_issue: the posted fields\<close>

lemma issue_fields_set_if:
  "issue_fields pk it summary pr de pa ep sp =
     set_if (truthy sp) ''customfield_10010'' sp
      (set_if (truthy ep) ''customfield_10008'' ep
        (set_if (truthy pa) ''customfield_10009'' pa
          (set_if (truthy de) ''description'' de
            (set_if (truthy pr) ''priority'' (PDict [(''name'', pr)])
               [(''project'', PDict [(''key'', PStr pk)]),
                (''issuetype'', PDict [(''name'', PStr (enum_value it))]),
                (''summary'', summary)]))))"
  unfolding issue_fields_def set_if_def Let_def by (rule refl)

lemma fields_project:
  "map_of (issue_fields pk it summary pr de pa ep sp) ''project'' = Some (PDict [(''key'', PStr pk)])"
  by (simp add: issue_fields_set_if map_of_set_if)

lemma fields_issuetype:
  "map_of (issue_fields pk it summary pr de pa ep sp) ''issuetype'' =
     Some (PDict [(''name'', PStr (enum_value it))])"
  by (simp add: issue_fields_set_if map_of_set_if)

lemma fields_summary:
  "map_of (issue_fields pk it summary pr de pa ep sp) ''summary'' = Some summary"
  by (simp add: issue_fields_set_if map_of_set_if)

lemma fields_priority:
  "map_of (issue_fields pk it summary pr de pa ep sp) ''priority'' =
     (if truthy pr then Some (PDict [(''name'', pr)]) else None)"
  by (simp add: issue_fields_set_if map_of_set_if)

lemma fields_description:
  "map_of (issue_fields pk it summary pr de pa ep sp) ''description'' =
     (if truthy de then Some de else None)"
  by (simp add: issue_fields_set_if map_of_set_if)

lemma fields_parent:
  "map_of (issue_fields pk it summary pr de pa ep sp) ''customfield_10009'' =
     (if truthy pa then Some pa else None)"
  by (simp add: issue_fields_set_if map_of_set_if)

lemma fields_epic:
  "map_of (issue_fields pk it summary pr de pa ep sp) ''customfield_10008'' =
     (if truthy ep then Some ep else None)"
  by (simp add: issue_fields_set_if map_of_set_if)

lemma fields_sprint:
  "map_of (issue_fields pk it summary pr de pa ep sp) ''customfield_10010'' =
     (if truthy sp then Some sp else None)"
  by (simp add: issue_fields_set_if map_of_set_if)

lemma fields_distinct: "distinct (map fst (issue_fields pk it summary pr de pa ep sp))"
  by (simp add: issue_fields_set_if distinct_set_if)

lemma create_issue_sent:
  "sent (snd (create_issue cfg pk it summary pr de pa ep sp w)) =
     sent w @ [POST (credentials cfg) (fstr [Lit (JIRA_BASE_URL cfg), Lit ISSUES_API_ENDPOINT])
                 (PDict [(''fields'', PDict (issue_fields pk it summary pr de pa ep sp))])]"
  by (simp add: create_issue_def http_post_def io_bind_def respond_def io_result_def
      io_return_def Let_def split: list.splits sum.splits prod.splits)

text \<open>
  C1. Every call of \<^verbatim>\<open>create_issue\<close> sends one POST whose body is \<^verbatim>\<open>{"fields": data}\<close>. The
  dict \<^verbatim>\<open>data\<close> always holds the project key, the name of the issue type and the summary.
  The priority, the description, the parent link (\<^verbatim>\<open>customfield_10009\<close>), the epic link
  (\<^verbatim>\<open>customfield_10008\<close>) and the sprint link (\<^verbatim>\<open>customfield_10010\<close>) are keys of \<^verbatim>\<open>data\<close>
  exactly when the argument is provided, that is a string that is not empty, and then the
  field carries the argument. (For a value of another type, such as the id that the driver
  passes as sprint, the test is the truth value of the argument: \<open>fields_sprint\<close>.)
\<close>

theorem create_issue_payload:
  fixes priority description parent_key epic_key sprint_id :: "string option"
  shows
  "(let data = issue_fields project_key issue_type summary (opt priority) (opt description)
                 (opt parent_key) (opt epic_key) (opt sprint_id) in
      sent (snd (create_issue cfg project_key issue_type summary (opt priority) (opt description)
                   (opt parent_key) (opt epic_key) (opt sprint_id) w))
        = sent w @ [POST (credentials cfg) (fstr [Lit (JIRA_BASE_URL cfg), Lit ISSUES_API_ENDPOINT])
                      (PDict [(''fields'', PDict data)])]
    \<and> distinct (map fst data)
    \<and> map_of data ''project'' = Some (PDict [(''key'', PStr project_key)])
    \<and> map_of data ''issuetype'' = Some (PDict [(''name'', PStr (enum_value issue_type))])
    \<and> map_of data ''summary'' = Some summary
    \<and> map_of data ''priority'' =
          (if provided priority then Some (PDict [(''name'', opt priority)]) else None)
    \<and> map_of data ''description'' = (if provided description then Some (opt description) else None)
    \<and> map_of data ''customfield_10009'' = (if provided parent_key then Some (opt parent_key) else None)
    \<and> map_of data ''customfield_10008'' = (if provided epic_key then Some (opt epic_key) else None)
    \<and> map_of data ''customfield_10010'' = (if provided sprint_id then Some (opt sprint_id) else None))"
  unfolding Let_def
proof (intro conjI)
  show "sent (snd (create_issue cfg project_key issue_type summary (opt priority) (opt description)
                   (opt parent_key) (opt epic_key) (opt sprint_id) w))
        = sent w @ [POST (credentials cfg) (fstr [Lit (JIRA_BASE_URL cfg), Lit ISSUES_API_ENDPOINT])
                      (PDict [(''fields'', PDict (issue_fields project_key issue_type summary
                         (opt priority) (opt description) (opt parent_key) (opt epic_key)
                         (opt sprint_id)))])]"
    by (rule create_issue_sent)
qed (simp_all only: fields_distinct fields_project fields_issuetype fields_summary fields_priority
       fields_description fields_parent fields_epic fields_sprint truthy_opt)

theorem create_issue_payload_witness:
  "(let data = issue_fields ''DW'' BUG (PStr ''Crash on start'') (opt None) (opt (Some ''Steps''))
                 (opt None) (opt (Some ''DW-7'')) (opt (Some '''')) in
      sent (snd (create_issue source_config ''DW'' BUG (PStr ''Crash on start'') (opt None)
                   (opt (Some ''Steps'')) (opt None) (opt (Some ''DW-7'')) (opt (Some ''''))
                   quiet_world))
        = [POST [Lit ''None:None''] [Lit ''https://joinhonor.atlassian.net/rest/api/2/issue'']
             (PDict [(''fields'', PDict data)])]
    \<and> data = [(''project'', PDict [(''key'', PStr ''DW'')]),
               (''issuetype'', PDict [(''name'', PStr ''Bug'')]),
               (''summary'', PStr ''Crash on start''),
               (''description'', PStr ''Steps''),
               (''customfield_10008'', PStr ''DW-7'')]
    \<and> map_of data ''priority'' = None
    \<and> map_of data ''customfield_10009'' = None
    \<and> map_of data ''customfield_10010'' = None)"
  using create_issue_payload [where cfg = source_config and project_key = "''DW''"
      and issue_type = BUG and summary = "PStr ''Crash on start''" and priority = None
      and description = "Some ''Steps''" and parent_key = None and epic_key = "Some ''DW-7''"
      and sprint_id = "Some ''''" and w = quiet_world]
  by (simp add: Let_def issue_fields_def opt_def provided_def quiet_world_def source_config_def
      credentials_def fstr_def ISSUES_API_ENDPOINT_def)

section \<open>CSV ingestion: the rows that are kept\<close>

lemma keys_fold_dict_set:
  "fst ` set (fold (\<lambda>x. dict_set (g x) (h x)) xs d) = g ` set xs \<union> fst ` set d"
  by (induction xs arbitrary: d) (auto simp: keys_dict_set)

lemma keys_row_dict: "fst ` set (named (row_dict fieldnames cells)) = set fieldnames"
proof -
  let ?d = "fold (\<lambda>kv. dict_set (fst kv) (Some (snd kv))) (zip fieldnames cells) []"
  have "map fst (zip fieldnames cells) = take (length cells) fieldnames"
    by (simp add: map_fst_zip_take min_def)
  then have z: "fst ` set (zip fieldnames cells) = set (take (length cells) fieldnames)"
    by (metis set_map)
  have d: "fst ` set ?d = set (take (length cells) fieldnames)"
    using keys_fold_dict_set [where g = fst and h = "\<lambda>kv. Some (snd kv)"
        and xs = "zip fieldnames cells" and d = "[]"] z
    by simp
  show ?thesis
  proof (cases "length fieldnames \<le> length cells")
    case True
    then show ?thesis using d by (auto simp: row_dict_def Let_def)
  next
    case False
    have "set (take (length cells) fieldnames) \<union> set (drop (length cells) fieldnames) = set fieldnames"
      by (metis append_take_drop_id set_append)
    with False show ?thesis using d
      by (simp add: row_dict_def Let_def keys_fold_dict_set [where h = "\<lambda>x. None"] Un_commute)
  qed
qed

lemma expected_in_validated:
  assumes "validate_columns header = Inr ()"
  shows "set expected_cols \<subseteq> set header"
proof -
  have "set expected_cols - set (filter (\<lambda>c. c \<noteq> []) header) = {}"
    using assms by (simp add: validate_columns_def Let_def split: if_splits)
  then show ?thesis by auto
qed

lemma select_rows_filter:
  "list_all (\<lambda>r. ''Priority'' \<in> fst ` set (named r)) rows \<Longrightarrow>
   select_rows wanted rows acc =
     Inr (acc @ filter (\<lambda>r. row_get r ''Priority'' = Inr (Some wanted)) rows)"
proof (induction rows arbitrary: acc)
  case Nil
  then show ?case by simp
next
  case (Cons r rows)
  from Cons.prems have "map_of (named r) ''Priority'' \<noteq> None"
    by (simp add: map_of_eq_None_iff)
  then obtain v where v: "map_of (named r) ''Priority'' = Some v"
    by blast
  have rest: "list_all (\<lambda>r. ''Priority'' \<in> fst ` set (named r)) rows"
    using Cons.prems by simp
  show ?case
    by (simp add: row_get_def v Cons.IH [OF rest])
qed

lemma validated_rows_have_priority:
  assumes "validate_columns header = Inr ()"
  shows "list_all (\<lambda>r. ''Priority'' \<in> fst ` set (named r)) (dict_reader (header # data_rows))"
proof -
  have "''Priority'' \<in> set header"
    using expected_in_validated [OF assms] by (auto simp: expected_cols_def)
  then show ?thesis by (simp add: list_all_iff keys_row_dict)
qed


text \<open>
  C3. The filtering step keeps exactly the rows whose \<^verbatim>\<open>Priority\<close> cell equals the requested
  value, in their order in the file: for every list of rows that have the column, and so
  for the rows read from every file whose header passed the checks.
\<close>

theorem priority_filter:
  "(list_all (\<lambda>r. ''Priority'' \<in> fst ` set (named r)) rows \<longrightarrow>
      select_rows wanted rows [] =
        Inr (filter (\<lambda>r. row_get r ''Priority'' = Inr (Some wanted)) rows))
   \<and> (files w filename = Some (header # data_rows) \<and> validate_columns header = Inr () \<longrightarrow>
      read_matching_rows filename wanted w =
        (Inr (filter (\<lambda>r. row_get r ''Priority'' = Inr (Some wanted))
                (dict_reader (header # data_rows))), w))"
proof (intro conjI impI)
  assume "list_all (\<lambda>r. ''Priority'' \<in> fst ` set (named r)) rows"
  then show "select_rows wanted rows [] =
        Inr (filter (\<lambda>r. row_get r ''Priority'' = Inr (Some wanted)) rows)"
    using select_rows_filter [of rows wanted "[]"] by simp
next
  assume a: "files w filename = Some (header # data_rows) \<and> validate_columns header = Inr ()"
  then have "select_rows wanted (dict_reader (header # data_rows)) [] =
      Inr (filter (\<lambda>r. row_get r ''Priority'' = Inr (Some wanted))
             (dict_reader (header # data_rows)))"
    using select_rows_filter [OF validated_rows_have_priority, of header wanted data_rows "[]"]
    by simp
  with a show "read_matching_rows filename wanted w =
        (Inr (filter (\<lambda>r. row_get r ''Priority'' = Inr (Some wanted))
                (dict_reader (header # data_rows))), w)"
    by (simp add: read_matching_rows_def res_bind_def)
qed

lemma three_rows_valid: "validate_columns (hd three_rows) = Inr ()"
  by (simp add: three_rows_def validate_columns_def expected_cols_def Let_def)

theorem priority_filter_witness:
  "select_rows ''Stop ship'' (dict_reader three_rows) [] =
     Inr [\<lparr>named = [(''Priority'', Some ''Stop ship''), (''Description of issue'', Some ''Login fails''),
                    (''Additional notes'', Some ''Repro on Android''),
                    (''Platform/URL'', Some ''http://x''), (''Title'', Some ''Login'')],
           rest = None\<rparr>,
          \<lparr>named = [(''Priority'', Some ''Stop ship''), (''Description of issue'', Some ''Crash on save''),
                    (''Additional notes'', Some []), (''Platform/URL'', Some []),
                    (''Title'', Some ''Crash'')],
           rest = None\<rparr>]
   \<and> read_matching_rows ''bugs.csv'' ''Stop ship'' bugs_world =
       (Inr [\<lparr>named = [(''Priority'', Some ''Stop ship''), (''Description of issue'', Some ''Login fails''),
                    (''Additional notes'', Some ''Repro on Android''),
                    (''Platform/URL'', Some ''http://x''), (''Title'', Some ''Login'')],
           rest = None\<rparr>,
          \<lparr>named = [(''Priority'', Some ''Stop ship''), (''Description of issue'', Some ''Crash on save''),
                    (''Additional notes'', Some []), (''Platform/URL'', Some []),
                    (''Title'', Some ''Crash'')],
           rest = None\<rparr>], bugs_world)"
  using priority_filter [where rows = "dict_reader three_rows" and wanted = "''Stop ship''"
      and w = bugs_world and filename = "''bugs.csv''" and header = "hd three_rows"
      and data_rows = "tl three_rows"] three_rows_valid
  by (simp add: three_rows_def row_dict_def row_get_def bugs_world_def)

section \<open>The composed description\<close>

lemma no_section: "\<not> provided cell \<Longrightarrow> notes_section cell = [] \<and> url_section cell = []"
  by (cases cell) (simp_all add: provided_def notes_section_def url_section_def)

text \<open>
  C4. For every row with a description text \<open>base\<close>, the description of the ticket is
  \<open>base\<close>, then the section \<^verbatim>\<open>Additional notes\<close> when the notes cell is not empty, then the
  section \<^verbatim>\<open>Platform/URL\<close> when the URL cell is not empty; with both cells empty it is
  \<open>base\<close> itself.
\<close>

theorem description_composition:
  assumes "row_get r ''Description of issue'' = Inr (Some base)"
    and "row_get r ''Title'' = Inr title_cell"
    and "row_get r ''Additional notes'' = Inr notes_cell"
    and "row_get r ''Platform/URL'' = Inr url_cell"
  shows "(\<exists>kw. ticket_draft project_key epic sprint_id r = Inr kw
            \<and> kw_description kw = PStr (base @ notes_section notes_cell @ url_section url_cell)
            \<and> (\<not> provided notes_cell \<and> \<not> provided url_cell \<longrightarrow> kw_description kw = PStr base))"
proof -
  let ?text = "base @ notes_section notes_cell @ url_section url_cell"
  have step1:
    "(case notes_cell of
        None \<Rightarrow> Inr (Some base)
      | Some n \<Rightarrow> if n = [] then Inr (Some base)
                  else iadd (Some base) ([nl, nl] @ ''**Additional notes**:'' @ [nl] @ n)) =
     Inr (Some (base @ notes_section notes_cell))"
    by (cases notes_cell) (simp_all add: notes_section_def iadd_def)
  have step2:
    "(case url_cell of
        None \<Rightarrow> Inr (Some (base @ notes_section notes_cell))
      | Some u \<Rightarrow> if u = [] then Inr (Some (base @ notes_section notes_cell))
                  else iadd (Some (base @ notes_section notes_cell))
                         ([nl, nl] @ ''**Platform/URL**: '' @ u)) =
     Inr (Some ?text)"
    by (cases url_cell) (simp_all add: url_section_def iadd_def)
  have draft: "ticket_draft project_key epic sprint_id r =
      Inr \<lparr>kw_project_key = project_key, kw_issue_type = BUG,
           kw_summary = opt (if provided title_cell then title_cell else Some base),
           kw_description = PStr ?text, kw_epic_key = opt epic, kw_sprint_id = sprint_id\<rparr>"
    unfolding ticket_draft_def assms res_bind_def Let_def
    by (simp only: sum.case step1 step2 opt_def option.case)
  have "\<not> provided notes_cell \<and> \<not> provided url_cell \<longrightarrow> ?text = base"
    using no_section [of notes_cell] no_section [of url_cell] by simp
  with draft show ?thesis by simp
qed

theorem description_composition_witness:
  "(\<exists>kw. ticket_draft ''DW'' None PNone login_row = Inr kw
      \<and> kw_description kw =
          PStr (''Login fails'' @ [nl, nl] @ ''**Additional notes**:'' @ [nl] @ ''Repro on Android''
                @ [nl, nl] @ ''**Platform/URL**: http://x''))
   \<and> (\<exists>kw. ticket_draft ''DW'' None PNone crash_row = Inr kw
      \<and> kw_description kw = PStr ''Crash on save'')"
  using description_composition [where r = login_row and base = "''Login fails''"
      and title_cell = "Some ''Login''" and notes_cell = "Some ''Repro on Android''"
      and url_cell = "Some ''http://x''" and project_key = "''DW''" and epic = None
      and sprint_id = PNone]
    description_composition [where r = crash_row and base = "''Crash on save''"
      and title_cell = "Some []" and notes_cell = "Some []" and url_cell = "Some []"
      and project_key = "''DW''" and epic = None and sprint_id = PNone]
  by (simp add: login_row_def crash_row_def row_get_def notes_section_def url_section_def
      provided_def)

section \<open>The checks on the header row\<close>

lemma remdups_length_distinct: "(length (remdups xs) \<noteq> length xs) = (\<not> distinct xs)"
proof
  assume "length (remdups xs) \<noteq> length xs"
  then show "\<not> distinct xs" by (auto simp: distinct_remdups_id)
next
  assume "\<not> distinct xs"
  then have "remdups xs \<noteq> xs" by simp
  then show "length (remdups xs) \<noteq> length xs"
    by (metis length_remdups_eq)
qed

lemma expected_not_empty: "[] \<notin> set expected_cols"
  by (simp add: expected_cols_def)

lemma missing_of_names:
  "set expected_cols - set (filter (\<lambda>c. c \<noteq> []) header) = set expected_cols - set header"
  using expected_not_empty by auto

text \<open>The outcome of the checks, case by case.\<close>

lemma validate_columns_cases:
  "validate_columns header =
     (if \<not> distinct (filter (\<lambda>c. c \<noteq> []) header)
      then Inl (ValueError ''One or more columns in csv is repeated'')
      else if \<not> set expected_cols \<subseteq> set header
      then Inl (ValueErrorF [Lit ''Expected columns are missing from csv: '',
                             ReprSet (set expected_cols - set header)])
      else Inr ())"
proof -
  have "(set expected_cols - set header \<noteq> {}) = (\<not> set expected_cols \<subseteq> set header)"
    by auto
  then show ?thesis
    unfolding validate_columns_def Let_def remdups_length_distinct missing_of_names
    by (simp add: fstr_def)
qed

text \<open>
  C10. Column names that are empty strings are dropped before both checks. The outcome for
  a header is the outcome for its names that are not empty; the error for a repeated column
  is raised exactly when a name that is not empty occurs twice, so empty names, however
  many, never raise it; one more empty name anywhere changes nothing; and no required
  column is the empty string, so an empty name stands for none of them.
\<close>

theorem empty_names_dropped:
  "validate_columns header = validate_columns (filter (\<lambda>c. c \<noteq> []) header)
   \<and> (validate_columns header = Inl (ValueError ''One or more columns in csv is repeated''))
       = (\<not> distinct (filter (\<lambda>c. c \<noteq> []) header))
   \<and> validate_columns (before @ [] # after) = validate_columns (before @ after)
   \<and> (validate_columns header = Inr ())
       = (distinct (filter (\<lambda>c. c \<noteq> []) header)
          \<and> set expected_cols \<subseteq> set (filter (\<lambda>c. c \<noteq> []) header))
   \<and> [] \<notin> set expected_cols"
proof (intro conjI)
  show "validate_columns header = validate_columns (filter (\<lambda>c. c \<noteq> []) header)"
    by (simp add: validate_columns_def)
  show "(validate_columns header = Inl (ValueError ''One or more columns in csv is repeated''))
       = (\<not> distinct (filter (\<lambda>c. c \<noteq> []) header))"
    by (simp add: validate_columns_cases)
  show "validate_columns (before @ [] # after) = validate_columns (before @ after)"
    by (simp add: validate_columns_def)
  have "set expected_cols \<subseteq> set (filter (\<lambda>c. c \<noteq> []) header) = (set expected_cols \<subseteq> set header)"
    using expected_not_empty by auto
  then show "(validate_columns header = Inr ())
       = (distinct (filter (\<lambda>c. c \<noteq> []) header)
          \<and> set expected_cols \<subseteq> set (filter (\<lambda>c. c \<noteq> []) header))"
    by (simp add: validate_columns_cases)
  show "[] \<notin> set expected_cols" by (rule expected_not_empty)
qed

theorem empty_names_dropped_witness:
  "validate_columns padded_header = Inr ()
   \<and> validate_columns padded_header = validate_columns expected_cols
   \<and> \<not> distinct padded_header"
  using empty_names_dropped [where header = padded_header and before = "[]" and after = "[]"]
  by (simp add: padded_header_def expected_cols_def validate_columns_def Let_def)

section \<open>What the run does before it reads the file\<close>

lemma reads_only_bind:
  assumes "reads_only m" and "\<And>x. reads_only (f x)"
  shows "reads_only (io_bind m f)"
  unfolding reads_only_def
proof (intro allI)
  fix w
  obtain r w1 where m: "m w = (r, w1)" by (cases "m w")
  have w1: "posts w1 = posts w \<and> files w1 = files w"
    using assms(1) m unfolding reads_only_def by (metis snd_conv)
  show "posts (snd (io_bind m f w)) = posts w \<and> files (snd (io_bind m f w)) = files w"
  proof (cases r)
    case (Inl e)
    then show ?thesis using m w1 by (simp add: io_bind_def)
  next
    case (Inr x)
    have "posts (snd (f x w1)) = posts w1 \<and> files (snd (f x w1)) = files w1"
      using assms(2) [of x] unfolding reads_only_def by blast
    then show ?thesis using Inr m w1 by (simp add: io_bind_def)
  qed
qed

lemma reads_only_return: "reads_only (io_return x)"
  by (simp add: reads_only_def io_return_def)

lemma reads_only_raise: "reads_only (io_raise e)"
  by (simp add: reads_only_def io_raise_def)

lemma reads_only_result: "reads_only (io_result r)"
  by (simp add: reads_only_def io_result_def)

lemma reads_only_print: "reads_only (print s)"
  by (simp add: reads_only_def print_def posts_def)

lemma reads_only_pprint: "reads_only (pprint v)"
  by (simp add: reads_only_def pprint_def posts_def)

lemma reads_only_http_get: "reads_only (http_get cfg url params)"
  by (simp add: reads_only_def http_get_def respond_def posts_def Let_def split: list.splits)

lemma reads_only_if: "reads_only m \<Longrightarrow> reads_only n \<Longrightarrow> reads_only (if c then m else n)"
  by simp

lemma reads_only_for_each:
  assumes "\<And>x. reads_only (body x)"
  shows "reads_only (for_each body xs)"
  by (induction xs) (simp_all add: reads_only_return reads_only_bind assms)

lemma reads_only_get_create_metadata: "reads_only (get_create_metadata cfg project_key)"
proof -
  have "reads_only (case project_key of
          None \<Rightarrow> io_return data
        | Some pk \<Rightarrow> if pk = [] then io_return data
                     else io_result (res_bind (py_iter data) (find_project pk)))" for data
    by (cases project_key) (simp_all add: reads_only_return reads_only_result)
  then show ?thesis
    unfolding get_create_metadata_def Let_def
    by (intro reads_only_bind reads_only_http_get reads_only_result)
qed

lemma reads_only_register_issue_type: "reads_only (register_issue_type issue_type)"
proof -
  have "reads_only (io_bind (io_result (getitem issue_type ''name'')) (\<lambda>name.
            print (fstr [fmt name, Lit '' is not a known IssueType value''])))"
    by (intro reads_only_bind reads_only_result reads_only_print)
  then show ?thesis
    by (auto simp: reads_only_def register_issue_type_def posts_def split: sum.splits)
qed

lemma reads_only_get_issue_types: "reads_only (get_issue_types cfg project_key)"
  unfolding get_issue_types_def
  by (intro reads_only_bind reads_only_get_create_metadata reads_only_result
      reads_only_for_each reads_only_register_issue_type)

lemma reads_only_get_create_field_metadata:
  "reads_only (get_create_field_metadata cfg project_key issue_type)"
proof -
  have inner: "reads_only (io_bind (http_get cfg url []) (\<lambda>data.
          io_bind (io_result (res_bind (res_bind (getitem data ''fields'') py_iter)
                                filter_required)) (\<lambda>required_fields.
          io_bind (io_result (traverse (\<lambda>f. getitem f ''key'') required_fields)) (\<lambda>keys.
          io_bind (print (fstr [Lit ''Required fields: '', fmt (PList keys)])) (\<lambda>u.
          io_result (res_bind (res_bind (getitem data ''fields'') py_iter) (\<lambda>fs.
                     res_bind (traverse field_summary fs) (\<lambda>r. Inr (PList r)))))))))" for url
    by (intro reads_only_bind reads_only_http_get reads_only_result reads_only_print)
  show ?thesis
    unfolding reads_only_def
  proof (intro allI)
    fix w
    show "posts (snd (get_create_field_metadata cfg project_key issue_type w)) = posts w
      \<and> files (snd (get_create_field_metadata cfg project_key issue_type w)) = files w"
    proof (cases "jira_id w issue_type")
      case None
      then show ?thesis by (simp add: get_create_field_metadata_def)
    next
      case (Some jid)
      then show ?thesis
        using inner unfolding reads_only_def
        by (simp add: get_create_field_metadata_def Let_def)
    qed
  qed
qed

lemma reads_only_get_board_id: "reads_only (get_board_id cfg project_key board_type)"
  unfolding get_board_id_def Let_def
  by (intro reads_only_bind reads_only_http_get reads_only_result)

lemma reads_only_get_current_sprint_id:
  "reads_only (get_current_sprint_id cfg project_key board_id)"
  unfolding get_current_sprint_id_def Let_def
  by (intro reads_only_bind reads_only_http_get reads_only_result)

lemma reads_only_resolve_sprint: "reads_only (resolve_sprint cfg a)"
  unfolding resolve_sprint_def Let_def
  by (intro reads_only_bind reads_only_if reads_only_print reads_only_return
      reads_only_get_issue_types reads_only_get_create_field_metadata reads_only_pprint
      reads_only_raise reads_only_get_board_id reads_only_get_current_sprint_id)

lemma read_matching_rows_invalid:
  assumes "files w filename = Some (header # data_rows)"
    and "validate_columns header = Inl e"
  shows "read_matching_rows filename wanted w = (Inl e, w)"
  using assms by (simp add: read_matching_rows_def res_bind_def)

lemma validate_columns_invalid:
  assumes "\<not> distinct (filter (\<lambda>c. c \<noteq> []) header) \<or> \<not> set expected_cols \<subseteq> set header"
  shows "validate_columns header = Inl (ValueErrorF (header_error header))"
  using assms by (auto simp: validate_columns_cases header_error_def)

text \<open>A run whose file fails the header checks, split at the end of the first phase.\<close>

lemma main_invalid_header:
  assumes csv: "files w (arg_filename a) = Some (header # data_rows)"
    and bad: "validate_columns header = Inl e"
  shows "main cfg a w =
     (case resolve_sprint cfg a w of
        (Inl e', w1) \<Rightarrow> (Inl e', w1)
      | (Inr sprint_id, w1) \<Rightarrow>
          (Inl e, w1\<lparr>stdout := stdout w1 @ [Print (fstr [Lit ''Reading CSV '',
                                                         Lit (arg_filename a)])]\<rparr>))"
proof -
  obtain r w1 where rs: "resolve_sprint cfg a w = (r, w1)" by (cases "resolve_sprint cfg a w")
  have "files w1 = files w"
    using reads_only_resolve_sprint [of cfg a] rs unfolding reads_only_def by (metis snd_conv)
  then have f1: "files (w1\<lparr>stdout := stdout w1 @ [Print (fstr [Lit ''Reading CSV '',
                   Lit (arg_filename a)])]\<rparr>) (arg_filename a) = Some (header # data_rows)"
    using csv by simp
  show ?thesis
  proof (cases r)
    case (Inl e')
    then show ?thesis using rs by (simp add: main_def io_bind_def)
  next
    case (Inr sprint_id)
    then show ?thesis
      using rs read_matching_rows_invalid [OF f1 bad]
      by (simp add: main_def io_bind_def print_def)
  qed
qed

text \<open>
  C2, as the code has it. When a column name that is not empty occurs twice in the header
  row, or a required column is missing, the checks raise a ValueError, whatever the data
  rows are and with the world as it was; a run of the script on such a file ends in an
  exception and makes no ticket-creation call, and if it gets as far as the file the
  exception is this ValueError. When no name that is not empty occurs twice, the message
  shows the set of exactly the required columns that the header lacks; when one does, the
  message is the one for a repeated column, whatever columns are missing.
\<close>

theorem header_validation:
  assumes "files w (arg_filename a) = Some (header # data_rows)"
    and "\<not> distinct (filter (\<lambda>c. c \<noteq> []) header) \<or> \<not> set expected_cols \<subseteq> set header"
  shows "validate_columns header = Inl (ValueErrorF (header_error header))
    \<and> read_matching_rows (arg_filename a) wanted w = (Inl (ValueErrorF (header_error header)), w)
    \<and> (\<exists>e. fst (main cfg a w) = Inl e)
    \<and> posts (snd (main cfg a w)) = posts w
    \<and> (\<forall>sprint_id w1. resolve_sprint cfg a w = (Inr sprint_id, w1) \<longrightarrow>
          fst (main cfg a w) = Inl (ValueErrorF (header_error header)))
    \<and> (distinct (filter (\<lambda>c. c \<noteq> []) header) \<longrightarrow>
          header_error header = [Lit ''Expected columns are missing from csv: '',
                                 ReprSet (set expected_cols - set header)])
    \<and> (\<not> distinct (filter (\<lambda>c. c \<noteq> []) header) \<longrightarrow>
          header_error header = [Lit ''One or more columns in csv is repeated''])"
proof -
  have v: "validate_columns header = Inl (ValueErrorF (header_error header))"
    using assms(2) by (rule validate_columns_invalid)
  note m = main_invalid_header [OF assms(1) v, of cfg]
  obtain r w1 where rs: "resolve_sprint cfg a w = (r, w1)" by (cases "resolve_sprint cfg a w")
  have quiet: "posts w1 = posts w"
    using reads_only_resolve_sprint [of cfg a] rs unfolding reads_only_def by (metis snd_conv)
  have "\<exists>e. fst (main cfg a w) = Inl e"
    using m rs by (cases r) simp_all
  moreover have "posts (snd (main cfg a w)) = posts w"
    using m rs quiet by (cases r) (simp_all add: posts_def)
  moreover have "\<forall>sprint_id w1. resolve_sprint cfg a w = (Inr sprint_id, w1) \<longrightarrow>
          fst (main cfg a w) = Inl (ValueErrorF (header_error header))"
    using m by simp
  ultimately show ?thesis
    using v read_matching_rows_invalid [OF assms(1) v] by (simp add: header_error_def)
qed

theorem header_validation_witness:
  "validate_columns short_header =
     Inl (ValueErrorF [Lit ''Expected columns are missing from csv: '',
                       ReprSet {''Additional notes'', ''Title''}])
   \<and> read_matching_rows ''bugs.csv'' ''Stop ship'' short_header_world =
       (Inl (ValueErrorF [Lit ''Expected columns are missing from csv: '',
                          ReprSet {''Additional notes'', ''Title''}]), short_header_world)
   \<and> (\<exists>e. fst (main source_config bugs_args short_header_world) = Inl e)
   \<and> posts (snd (main source_config bugs_args short_header_world)) = []
   \<and> validate_columns doubled_header =
       Inl (ValueError ''One or more columns in csv is repeated'')"
proof -
  have missing: "set expected_cols - set short_header = {''Additional notes'', ''Title''}"
    by (auto simp: expected_cols_def short_header_def)
  have short: "\<not> set expected_cols \<subseteq> set short_header"
    by (simp add: expected_cols_def short_header_def)
  have csv: "files short_header_world (arg_filename bugs_args)
      = Some (short_header # [[''Stop ship'', ''x'', ''y'']])"
    by (simp add: short_header_world_def bugs_args_def)
  have doubled: "\<not> distinct (filter (\<lambda>c. c \<noteq> []) doubled_header)"
    by (simp add: doubled_header_def)
  have csv2: "files doubled_header_world (arg_filename bugs_args) = Some (doubled_header # [])"
    by (simp add: doubled_header_world_def bugs_args_def)
  note first = header_validation [OF csv, where cfg = source_config and wanted = "''Stop ship''"]
  note second = header_validation [OF csv2, where cfg = source_config and wanted = "''Stop ship''"]
  have "distinct (filter (\<lambda>c. c \<noteq> []) short_header)"
    by (simp add: short_header_def)
  with first short
  have "header_error short_header = [Lit ''Expected columns are missing from csv: '',
                                     ReprSet {''Additional notes'', ''Title''}]"
    by (simp add: missing)
  moreover have "header_error doubled_header = [Lit ''One or more columns in csv is repeated'']"
    using second doubled by simp
  ultimately show ?thesis
    using first short second doubled
    by (simp add: bugs_args_def short_header_world_def quiet_world_def posts_def)
qed

text \<open>
  C2 as it is worded fails twice. A header that repeats the empty name has a name twice in
  the header row, and the checks pass. A header that repeats a name and lacks required
  columns is in the missing-column case, and the error is the one for a repeated column:
  its message names none of the missing columns.
\<close>

theorem header_validation_counterexample:
  "\<not> distinct [''Priority'', ''Description of issue'', ''Additional notes'', ''Platform/URL'',
                ''Title'', [], []]
   \<and> validate_columns [''Priority'', ''Description of issue'', ''Additional notes'',
         ''Platform/URL'', ''Title'', [], []] = Inr ()
   \<and> set expected_cols - set [''Priority'', ''Title'', ''Priority'']
       = {''Description of issue'', ''Additional notes'', ''Platform/URL''}
   \<and> validate_columns [''Priority'', ''Title'', ''Priority'']
       = Inl (ValueErrorF [Lit ''One or more columns in csv is repeated''])
   \<and> \<not> is_substring ''Description of issue'' ''One or more columns in csv is repeated''
   \<and> \<not> is_substring ''Additional notes'' ''One or more columns in csv is repeated''
   \<and> \<not> is_substring ''Platform/URL'' ''One or more columns in csv is repeated''"
proof -
  have "set expected_cols - set [''Priority'', ''Title'', ''Priority'']
       = {''Description of issue'', ''Additional notes'', ''Platform/URL''}"
    by (auto simp: expected_cols_def)
  moreover have "validate_columns [''Priority'', ''Description of issue'', ''Additional notes'',
         ''Platform/URL'', ''Title'', [], []] = Inr ()"
    by (simp add: validate_columns_def expected_cols_def Let_def)
  moreover have "validate_columns [''Priority'', ''Title'', ''Priority'']
       = Inl (ValueErrorF [Lit ''One or more columns in csv is repeated''])"
    by (simp add: validate_columns_def Let_def)
  moreover have "\<not> is_substring ''Description of issue'' ''One or more columns in csv is repeated''"
    "\<not> is_substring ''Additional notes'' ''One or more columns in csv is repeated''"
    "\<not> is_substring ''Platform/URL'' ''One or more columns in csv is repeated''"
    by simp_all
  ultimately show ?thesis by simp
qed

section \<open>Board resolution\<close>

lemma board_id_of_one:
  assumes "getitem data ''values'' = Inr (PList [board])"
  shows "board_id_of data = getitem board ''id''"
  using assms by (simp add: board_id_of_def res_bind_def)

lemma str_nat_0: "str_nat 0 = ''0''"
  by code_simp

lemma board_id_of_none:
  assumes "getitem data ''values'' = Inr (PList [])"
  shows "board_id_of data =
    Inl (ValueError ''Found 0 boards: . Try setting the --board_id option directly'')"
  using assms by (simp add: board_id_of_def res_bind_def str_nat_0 del: str_nat.simps)

text \<open>
  With two boards or more, the comprehension that is to list the candidates stops at the
  first board with the exception of \<^verbatim>\<open>str(board["name"], board["id"])\<close>: the ValueError with
  the names is never built.
\<close>

lemma board_id_of_many:
  assumes "getitem data ''values'' = Inr (PList (board # board' # boards))"
    and "getitem board ''name'' = Inr name"
    and "getitem board ''id'' = Inr i"
  shows "board_id_of data =
    Inl (if (\<exists>e. i = PStr e \<and> CHR 0x00 \<in> set e) then ValueError ''embedded null character''
         else TypeError)"
proof -
  have "str2 name i =
    Inl (if (\<exists>e. i = PStr e \<and> CHR 0x00 \<in> set e) then ValueError ''embedded null character''
         else TypeError)"
    by (cases i) (simp_all add: str2_def)
  then show ?thesis
    using assms by (simp add: board_id_of_def res_bind_def board_label_def)
qed

text \<open>
  C5, at a response with two boards: \<^verbatim>\<open>get_board_id\<close> ends in the TypeError of \<^verbatim>\<open>str\<close> called
  with two arguments, not in the error that lists the candidate boards and advises
  \<^verbatim>\<open>--board_id\<close>.
\<close>

theorem get_board_id_two_boards:
  "get_board_id source_config ''DW'' ''scrum'' (quiet_world\<lparr>net := [Inr two_boards_response]\<rparr>) =
     (Inl TypeError,
      quiet_world\<lparr>sent := [GET [Lit ''None:None'']
                              [Lit ''https://joinhonor.atlassian.net/rest/agile/1.0/board'']
                              [(''projectKeyOrId'', ''DW''), (''type'', ''scrum'')]]\<rparr>)"
  by (simp add: get_board_id_def http_get_def respond_def io_bind_def io_result_def Let_def
      quiet_world_def source_config_def credentials_def fstr_def BOARD_ENDPOINT_def
      two_boards_response_def board_id_of_def res_bind_def board_label_def str2_def)

section \<open>Sprint resolution\<close>

lemma sprint_id_of_first:
  assumes "map_of kvs ''values'' = Some (PList (sprint # sprints))"
  shows "sprint_id_of project_key (PDict kvs) = getitem sprint ''id''"
  using assms by (simp add: sprint_id_of_def res_bind_def)

lemma sprint_id_of_none:
  assumes "map_of kvs ''values'' = Some (PList []) \<or> map_of kvs ''values'' = None"
  shows "sprint_id_of (Some pk) (PDict kvs) =
    Inl (ValueError (''No active sprint found for '' @ pk))"
  using assms by (auto simp: sprint_id_of_def res_bind_def)

lemma http_get_answer:
  assumes "net w = answer # answers"
  shows "http_get cfg url params w =
    (answer, w\<lparr>sent := sent w @ [GET (credentials cfg) url params], net := answers\<rparr>)"
  using assms by (simp add: http_get_def respond_def Let_def)

text \<open>
  C6. Let the tracker answer the sprint query with a dict. When its \<^verbatim>\<open>values\<close> is a list
  with at least one sprint, \<^verbatim>\<open>get_current_sprint_id\<close> returns the \<^verbatim>\<open>id\<close> of the first one;
  when the list is empty, or the dict has no \<^verbatim>\<open>values\<close>, it raises the ValueError
  \<^verbatim>\<open>No active sprint found for\<close> the project. The name \<^verbatim>\<open>project_key\<close> is bound, as it is
  wherever the script calls the function.
\<close>

theorem sprint_resolution:
  assumes "net w = Inr (PDict kvs) # answers"
  shows "(\<forall>sprint sprints i.
            map_of kvs ''values'' = Some (PList (sprint # sprints)) \<and> getitem sprint ''id'' = Inr i
            \<longrightarrow> fst (get_current_sprint_id cfg (Some pk) board_id w) = Inr i)
    \<and> (map_of kvs ''values'' = Some (PList []) \<or> map_of kvs ''values'' = None
        \<longrightarrow> fst (get_current_sprint_id cfg (Some pk) board_id w)
              = Inl (ValueError (''No active sprint found for '' @ pk)))
    \<and> snd (get_current_sprint_id cfg (Some pk) board_id w) =
         w\<lparr>sent := sent w @ [GET (credentials cfg)
                               (fstr ([Lit (JIRA_BASE_URL cfg), Lit BOARD_ENDPOINT, Lit ''/'']
                                      @ board_id @ [Lit ''/sprint'']))
                               [(''state'', ''active'')]],
           net := answers\<rparr>"
proof -
  let ?url = "fstr ([Lit (JIRA_BASE_URL cfg), Lit BOARD_ENDPOINT, Lit ''/''] @ board_id
                    @ [Lit ''/sprint''])"
  let ?w = "w\<lparr>sent := sent w @ [GET (credentials cfg) ?url [(''state'', ''active'')]],
              net := answers\<rparr>"
  have run: "get_current_sprint_id cfg (Some pk) board_id w =
      (sprint_id_of (Some pk) (PDict kvs), ?w)"
    using http_get_answer [OF assms, of cfg ?url "[(''state'', ''active'')]"]
    by (simp add: get_current_sprint_id_def Let_def io_bind_def io_result_def)
  show ?thesis
    unfolding run
    using sprint_id_of_first [of kvs _ _ "Some pk"] sprint_id_of_none [of kvs pk]
    by auto
qed

theorem sprint_resolution_witness:
  "fst (get_current_sprint_id source_config (Some ''DW'') [Lit ''7'']
         (quiet_world\<lparr>net := [Inr one_sprint_response]\<rparr>)) = Inr (PInt 42)
   \<and> fst (get_current_sprint_id source_config (Some ''DW'') [Lit ''7'']
         (quiet_world\<lparr>net := [Inr no_sprint_response]\<rparr>))
       = Inl (ValueError ''No active sprint found for DW'')
   \<and> sent (snd (get_current_sprint_id source_config (Some ''DW'') [Lit ''7'']
         (quiet_world\<lparr>net := [Inr one_sprint_response]\<rparr>)))
       = [GET [Lit ''None:None'']
            [Lit ''https://joinhonor.atlassian.net/rest/agile/1.0/board/7/sprint'']
            [(''state'', ''active'')]]"
  using sprint_resolution [where w = "quiet_world\<lparr>net := [Inr one_sprint_response]\<rparr>"
      and kvs = "[(''values'', PList [PDict [(''id'', PInt 42), (''name'', PStr ''Sprint 9'')]])]"
      and answers = "[]" and cfg = source_config and pk = "''DW''" and board_id = "[Lit ''7'']"]
    sprint_resolution [where w = "quiet_world\<lparr>net := [Inr no_sprint_response]\<rparr>"
      and kvs = "[(''values'', PList [])]"
      and answers = "[]" and cfg = source_config and pk = "''DW''" and board_id = "[Lit ''7'']"]
  by (simp add: quiet_world_def one_sprint_response_def no_sprint_response_def
      source_config_def credentials_def fstr_def BOARD_ENDPOINT_def)

section \<open>get_issue\<close>

lemma get_issues_sent:
  "sent (snd (get_issues cfg fromisoformat assignee project in_current_sprint statuses keys w)) =
     sent w @ [GET (credentials cfg) (fstr [Lit (JIRA_BASE_URL cfg), Lit SEARCH_API_ENDPOINT])
                 [(''jql'', jql_of assignee project in_current_sprint statuses keys)]]"
  by (simp add: get_issues_def http_get_def respond_def io_bind_def io_result_def Let_def
      split: list.splits sum.splits)

lemma jql_key_only: "jql_of None None False None (Some [key]) = ''issueKey = '' @ [dq] @ key @ [dq]"
  by (simp add: jql_of_def)

lemma get_issue_cases:
  assumes "get_issues cfg fromisoformat None None False None (Some [key]) w = (r, w')"
  shows "get_issue cfg fromisoformat key w =
     (case r of
        Inl e \<Rightarrow> (Inl e, w')
      | Inr [issue] \<Rightarrow> (Inr issue, w')
      | Inr issues \<Rightarrow> (Inl AssertionError, w'))"
proof (cases r)
  case (Inl e)
  then show ?thesis using assms by (simp add: get_issue_def io_bind_def)
next
  case (Inr issues)
  show ?thesis
  proof (cases issues)
    case Nil
    then show ?thesis using assms Inr by (simp add: get_issue_def io_bind_def io_raise_def)
  next
    case (Cons issue others)
    then show ?thesis
      using assms Inr
      by (cases others) (simp_all add: get_issue_def io_bind_def io_raise_def io_return_def)
  qed
qed

text \<open>
  C9. \<^verbatim>\<open>get_issue(key)\<close> is the search with \<^verbatim>\<open>keys = [key]\<close> and nothing else (the one request
  it sends asks for \<^verbatim>\<open>issueKey = "key"\<close>); it returns the single result of that search, and
  fails the assertion when the search yields none or more than one; a search that raises
  makes it raise the same.
\<close>

theorem get_issue_refines:
  "get_issue cfg fromisoformat key w = get_issue_spec cfg fromisoformat key w
   \<and> sent (snd (get_issue cfg fromisoformat key w)) =
       sent w @ [GET (credentials cfg) (fstr [Lit (JIRA_BASE_URL cfg), Lit SEARCH_API_ENDPOINT])
                   [(''jql'', ''issueKey = '' @ [dq] @ key @ [dq])]]
   \<and> (\<forall>issues w'.
         get_issues cfg fromisoformat None None False None (Some [key]) w = (Inr issues, w') \<longrightarrow>
         get_issue cfg fromisoformat key w =
           (if length issues = 1 then (Inr (hd issues), w') else (Inl AssertionError, w')))
   \<and> (\<forall>e w'.
         get_issues cfg fromisoformat None None False None (Some [key]) w = (Inl e, w') \<longrightarrow>
         get_issue cfg fromisoformat key w = (Inl e, w'))"
proof -
  obtain r w' where run: "get_issues cfg fromisoformat None None False None (Some [key]) w = (r, w')"
    by (cases "get_issues cfg fromisoformat None None False None (Some [key]) w")
  note gi = get_issue_cases [OF run]
  have spec: "get_issue cfg fromisoformat key w = get_issue_spec cfg fromisoformat key w"
    unfolding gi get_issue_spec_def run by simp
  have "snd (get_issue cfg fromisoformat key w) = w'"
    unfolding gi by (simp split: sum.splits list.splits)
  then have "sent (snd (get_issue cfg fromisoformat key w)) =
      sent (snd (get_issues cfg fromisoformat None None False None (Some [key]) w))"
    using run by simp
  then have query: "sent (snd (get_issue cfg fromisoformat key w)) =
       sent w @ [GET (credentials cfg) (fstr [Lit (JIRA_BASE_URL cfg), Lit SEARCH_API_ENDPOINT])
                   [(''jql'', ''issueKey = '' @ [dq] @ key @ [dq])]]"
    by (simp only: get_issues_sent jql_key_only)
  have one: "\<forall>issues w''.
         get_issues cfg fromisoformat None None False None (Some [key]) w = (Inr issues, w'') \<longrightarrow>
         get_issue cfg fromisoformat key w =
           (if length issues = 1 then (Inr (hd issues), w'') else (Inl AssertionError, w''))"
  proof (intro allI impI)
    fix issues w''
    assume a: "get_issues cfg fromisoformat None None False None (Some [key]) w = (Inr issues, w'')"
    show "get_issue cfg fromisoformat key w =
           (if length issues = 1 then (Inr (hd issues), w'') else (Inl AssertionError, w''))"
      using get_issue_cases [OF a]
      by (cases issues; cases "tl issues") auto
  qed
  have err: "\<forall>e w''.
         get_issues cfg fromisoformat None None False None (Some [key]) w = (Inl e, w'') \<longrightarrow>
         get_issue cfg fromisoformat key w = (Inl e, w'')"
    using get_issue_cases by fastforce
  show ?thesis using spec query one err by blast
qed

theorem get_issue_refines_witness:
  "get_issue source_config toy_fromisoformat ''DW-216'' (quiet_world\<lparr>net := [Inr one_issue_response]\<rparr>)
     = (Inr (PDict [(''key'', PStr ''DW-216''), (''updated'', PStr ''2024'')]),
        quiet_world\<lparr>sent := [GET [Lit ''None:None'']
                                [Lit ''https://joinhonor.atlassian.net/rest/api/2/search'']
                                [(''jql'', ''issueKey = '' @ [dq] @ ''DW-216'' @ [dq])]]\<rparr>)
   \<and> fst (get_issue source_config toy_fromisoformat ''DW-216''
            (quiet_world\<lparr>net := [Inr no_issue_response]\<rparr>)) = Inl AssertionError
   \<and> fst (get_issue_spec source_config toy_fromisoformat ''DW-216''
            (quiet_world\<lparr>net := [Inr no_issue_response]\<rparr>)) = Inl AssertionError"
proof -
  let ?none = "quiet_world\<lparr>net := [Inr no_issue_response]\<rparr>"
  have one: "get_issue source_config toy_fromisoformat ''DW-216''
      (quiet_world\<lparr>net := [Inr one_issue_response]\<rparr>)
     = (Inr (PDict [(''key'', PStr ''DW-216''), (''updated'', PStr ''2024'')]),
        quiet_world\<lparr>sent := [GET [Lit ''None:None'']
                                [Lit ''https://joinhonor.atlassian.net/rest/api/2/search'']
                                [(''jql'', ''issueKey = '' @ [dq] @ ''DW-216'' @ [dq])]]\<rparr>)"
    by (simp add: get_issue_def get_issues_def http_get_def respond_def io_bind_def io_result_def
        io_return_def Let_def quiet_world_def source_config_def credentials_def
        fstr_def SEARCH_API_ENDPOINT_def one_issue_response_def
        sorted_issues_def res_bind_def jql_of_def)
  have none: "fst (get_issue source_config toy_fromisoformat ''DW-216'' ?none) = Inl AssertionError"
    by (simp add: get_issue_def get_issues_def http_get_def respond_def io_bind_def io_result_def
        io_raise_def Let_def quiet_world_def no_issue_response_def
        sorted_issues_def res_bind_def)
  have "get_issue source_config toy_fromisoformat ''DW-216'' ?none
      = get_issue_spec source_config toy_fromisoformat ''DW-216'' ?none"
    using get_issue_refines [where cfg = source_config and fromisoformat = toy_fromisoformat
        and key = "''DW-216''" and w = ?none]
    by blast
  with one none show ?thesis by simp
qed

section \<open>Issue type discovery\<close>

lemma io_bind_return: "io_bind (io_return x) f = f x"
  by (rule ext) (simp add: io_bind_def io_return_def)

lemma io_bind_assoc: "io_bind (io_bind m f) g = io_bind m (\<lambda>x. io_bind (f x) g)"
  by (rule ext) (simp add: io_bind_def split: prod.splits sum.splits)

lemma for_each_append:
  "for_each body (xs @ ys) = io_bind (for_each body xs) (\<lambda>u. for_each body ys)"
  by (induction xs) (simp_all add: io_bind_return io_bind_assoc)

lemma for_each_snoc:
  assumes "for_each body xs w = (Inr (), w1)"
  shows "for_each body (xs @ [x]) w = body x w1"
  using assms
  by (simp add: for_each_append) (simp add: io_bind_def io_return_def split: prod.splits sum.splits)

lemma enum_value_inj: "(enum_value t = enum_value t') = (t = t')"
  by (cases t; cases t') simp_all

lemma IssueType_of_value: "IssueType_of (PStr (enum_value t)) = Some t"
  by (cases t) (simp_all add: members_def)

lemma IssueType_of_Some:
  assumes "IssueType_of n = Some t"
  shows "n = PStr (enum_value t)"
proof (cases n)
  case (PStr s)
  with assms have "find (\<lambda>t. enum_value t = s) members = Some t" by simp
  then have "enum_value t = s" by (auto simp: find_Some_iff)
  with PStr show ?thesis by simp
qed (use assms in simp_all)

lemma register_known:
  assumes "getitem e ''name'' = Inr n" and "getitem e ''id'' = Inr i"
    and "IssueType_of n = Some t"
  shows "register_issue_type e w = (Inr (), w\<lparr>jira_id := (jira_id w)(t \<mapsto> i)\<rparr>)"
  using assms by (simp add: register_issue_type_def res_bind_def)

lemma register_unknown:
  assumes "getitem e ''name'' = Inr n" and "IssueType_of n = None"
  shows "register_issue_type e w =
    (Inr (), w\<lparr>stdout := stdout w @ [Print (fstr [fmt n, Lit '' is not a known IssueType value''])]\<rparr>)"
  using assms
  by (simp add: register_issue_type_def res_bind_def io_bind_def io_result_def print_def)

lemma unknown_warnings_snoc:
  "unknown_warnings (entries @ [e]) =
     unknown_warnings entries @
       (case getitem e ''name'' of
          Inl x \<Rightarrow> []
        | Inr n \<Rightarrow> (case IssueType_of n of
                      Some t \<Rightarrow> []
                    | None \<Rightarrow> [Print (fstr [fmt n, Lit '' is not a known IssueType value''])]))"
  by (simp add: unknown_warnings_def)

lemma last_id_snoc:
  "last_id t (entries @ [e]) =
     (if getitem e ''name'' = Inr (PStr (enum_value t))
      then (case getitem e ''id'' of Inl x \<Rightarrow> None | Inr i \<Rightarrow> Some i)
      else last_id t entries)"
  by (simp add: last_id_def)

text \<open>The loop of \<^verbatim>\<open>get_issue_types\<close> over entries that have a name and an id.\<close>

lemma register_all:
  assumes "list_all named_entry entries"
  shows "for_each register_issue_type entries w =
    (Inr (), w\<lparr>stdout := stdout w @ unknown_warnings entries,
               jira_id := (\<lambda>t. case last_id t entries of
                                  None \<Rightarrow> jira_id w t | Some i \<Rightarrow> Some i)\<rparr>)"
  using assms
proof (induction entries rule: rev_induct)
  case Nil
  then show ?case
    by (simp add: io_return_def unknown_warnings_def last_id_def)
next
  case (snoc e entries)
  let ?w1 = "w\<lparr>stdout := stdout w @ unknown_warnings entries,
               jira_id := (\<lambda>t. case last_id t entries of
                                  None \<Rightarrow> jira_id w t | Some i \<Rightarrow> Some i)\<rparr>"
  have loop: "for_each register_issue_type entries w = (Inr (), ?w1)"
    using snoc by simp
  from snoc.prems obtain n i where n: "getitem e ''name'' = Inr n" and i: "getitem e ''id'' = Inr i"
    by (auto simp: named_entry_def)
  show ?case
  proof (cases "IssueType_of n")
    case None
    have diff: "n \<noteq> PStr (enum_value t)" for t
      using None IssueType_of_value [of t] by auto
    show ?thesis
      unfolding for_each_snoc [OF loop] register_unknown [OF n None]
      by (simp add: unknown_warnings_snoc n None last_id_snoc diff)
  next
    case (Some t)
    have name: "n = PStr (enum_value t)" using Some by (rule IssueType_of_Some)
    have ids: "(\<lambda>t'. case last_id t' (entries @ [e]) of
                        None \<Rightarrow> jira_id w t' | Some i \<Rightarrow> Some i) =
               (\<lambda>t'. case last_id t' entries of
                        None \<Rightarrow> jira_id w t' | Some i \<Rightarrow> Some i)(t \<mapsto> i)"
      by (rule ext) (simp add: last_id_snoc n i name enum_value_inj)
    show ?thesis
      unfolding for_each_snoc [OF loop] register_known [OF n i Some]
      by (simp add: unknown_warnings_snoc n Some ids)
  qed
qed

lemma last_id_present:
  assumes "list_all named_entry entries" and "e \<in> set entries"
    and "getitem e ''name'' = Inr (PStr (enum_value t))"
  shows "\<exists>i. last_id t entries = Some i"
proof -
  let ?named = "filter (\<lambda>e. getitem e ''name'' = Inr (PStr (enum_value t))) (rev entries)"
  have "e \<in> set ?named" using assms(2,3) by simp
  then obtain e' es where es: "?named = e' # es" by (cases ?named) auto
  then have "e' \<in> set ?named" by simp
  then have "e' \<in> set entries" by simp
  then have "named_entry e'" using assms(1) by (simp add: list_all_iff)
  then obtain i where "getitem e' ''id'' = Inr i" by (auto simp: named_entry_def)
  then show ?thesis by (simp add: last_id_def es)
qed

lemma last_id_distinct:
  assumes "distinct (map (\<lambda>e. getitem e ''name'') entries)" and "e \<in> set entries"
    and "getitem e ''name'' = Inr (PStr (enum_value t))" and "getitem e ''id'' = Inr i"
  shows "last_id t entries = Some i"
proof -
  have "filter (\<lambda>e'. getitem e' ''name'' = Inr (PStr (enum_value t))) (rev entries) = [e]"
    using assms(1,2,3)
  proof (induction entries rule: rev_induct)
    case Nil
    then show ?case by simp
  next
    case (snoc x xs)
    show ?case
    proof (cases "e = x")
      case True
      have "getitem x ''name'' \<notin> (\<lambda>e. getitem e ''name'') ` set xs"
        using snoc.prems(1) by simp
      then have "getitem e' ''name'' \<noteq> Inr (PStr (enum_value t))" if "e' \<in> set xs" for e'
        using snoc.prems(3) that True by (metis imageI)
      then have "filter (\<lambda>e'. getitem e' ''name'' = Inr (PStr (enum_value t))) (rev xs) = []"
        by (simp add: filter_empty_conv)
      then show ?thesis using True snoc.prems(3) by simp
    next
      case False
      then have "e \<in> set xs" using snoc.prems(2) by simp
      moreover have "getitem x ''name'' \<notin> (\<lambda>e. getitem e ''name'') ` set xs"
        using snoc.prems(1) by simp
      then have "getitem x ''name'' \<noteq> Inr (PStr (enum_value t))"
        using snoc.prems(3) \<open>e \<in> set xs\<close> by (metis imageI)
      ultimately show ?thesis using snoc by simp
    qed
  qed
  then show ?thesis by (simp add: last_id_def assms(4))
qed

lemma unknown_warning_printed:
  assumes "e \<in> set entries" and "getitem e ''name'' = Inr n" and "IssueType_of n = None"
  shows "Print (fstr [fmt n, Lit '' is not a known IssueType value'']) \<in> set (unknown_warnings entries)"
proof -
  have "Print (fstr [fmt n, Lit '' is not a known IssueType value''])
      \<in> set (case getitem e ''name'' of
                Inl x \<Rightarrow> []
              | Inr n \<Rightarrow> (case IssueType_of n of
                            Some t \<Rightarrow> []
                          | None \<Rightarrow> [Print (fstr [fmt n, Lit '' is not a known IssueType value''])]))"
    using assms(2,3) by simp
  then show ?thesis
    unfolding unknown_warnings_def set_concat using assms(1) by auto
qed

lemma get_create_metadata_found:
  assumes "net w = Inr response # answers"
    and "project_key \<noteq> []"
    and "getitem response ''projects'' = Inr (PList projects)"
    and "find_project project_key projects = Inr project"
  shows "get_create_metadata cfg (Some project_key) w =
    (Inr project,
     w\<lparr>sent := sent w @ [GET (credentials cfg)
                           (fstr [Lit (JIRA_BASE_URL cfg), Lit ISSUES_API_ENDPOINT,
                                  Lit ''/createmeta'']) []],
       net := answers\<rparr>)"
  using assms
  by (simp add: get_create_metadata_def Let_def http_get_answer io_bind_def io_result_def
      res_bind_def)

text \<open>
  C8. Let the tracker answer the metadata query with the project and its list of issue
  types, each with a name and an id. Then \<^verbatim>\<open>get_issue_types\<close> returns that list: no entry
  stops the loop. It prints one warning for each entry whose name is no value of the
  enumeration, in the order of the entries, and nothing else. Afterwards every member whose
  value names an entry carries an id: the id of the last entry with that name, which is the
  id of the entry when the names do not repeat; the other members are as before.
\<close>

theorem issue_type_discovery:
  assumes "net w = Inr response # answers"
    and "project_key \<noteq> []"
    and "getitem response ''projects'' = Inr (PList projects)"
    and "find_project project_key projects = Inr project"
    and "getitem project ''issuetypes'' = Inr (PList entries)"
    and "list_all named_entry entries"
  shows "\<exists>w'. get_issue_types cfg project_key w = (Inr (PList entries), w')
    \<and> stdout w' = stdout w @ unknown_warnings entries
    \<and> (\<forall>t. jira_id w' t = (case last_id t entries of None \<Rightarrow> jira_id w t | Some i \<Rightarrow> Some i))
    \<and> (\<forall>e \<in> set entries. \<forall>t. getitem e ''name'' = Inr (PStr (enum_value t)) \<longrightarrow>
          (\<exists>i. jira_id w' t = Some i))
    \<and> (distinct (map (\<lambda>e. getitem e ''name'') entries) \<longrightarrow>
          (\<forall>e \<in> set entries. \<forall>t i.
              getitem e ''name'' = Inr (PStr (enum_value t)) \<and> getitem e ''id'' = Inr i \<longrightarrow>
              jira_id w' t = Some i))
    \<and> (\<forall>e \<in> set entries. \<forall>n. getitem e ''name'' = Inr n \<and> IssueType_of n = None \<longrightarrow>
          Print (fstr [fmt n, Lit '' is not a known IssueType value'']) \<in> set (stdout w'))"
proof -
  let ?w1 = "w\<lparr>sent := sent w @ [GET (credentials cfg)
                           (fstr [Lit (JIRA_BASE_URL cfg), Lit ISSUES_API_ENDPOINT,
                                  Lit ''/createmeta'']) []],
               net := answers\<rparr>"
  let ?w' = "?w1\<lparr>stdout := stdout ?w1 @ unknown_warnings entries,
                 jira_id := (\<lambda>t. case last_id t entries of
                                    None \<Rightarrow> jira_id ?w1 t | Some i \<Rightarrow> Some i)\<rparr>"
  have run: "get_issue_types cfg project_key w = (Inr (PList entries), ?w')"
    unfolding get_issue_types_def
    by (simp add: io_bind_def io_result_def res_bind_def
        get_create_metadata_found [OF assms(1-4)] assms(5) register_all [OF assms(6)])
  have out: "stdout ?w' = stdout w @ unknown_warnings entries" by simp
  have ids: "\<forall>t. jira_id ?w' t = (case last_id t entries of None \<Rightarrow> jira_id w t | Some i \<Rightarrow> Some i)"
    by (simp split: option.split)
  have attached: "\<forall>e \<in> set entries. \<forall>t. getitem e ''name'' = Inr (PStr (enum_value t)) \<longrightarrow>
          (\<exists>i. jira_id ?w' t = Some i)"
  proof (intro ballI allI impI)
    fix e t
    assume "e \<in> set entries" and "getitem e ''name'' = Inr (PStr (enum_value t))"
    then obtain i where "last_id t entries = Some i"
      using last_id_present [OF assms(6)] by blast
    then show "\<exists>i. jira_id ?w' t = Some i" by simp
  qed
  have exact: "distinct (map (\<lambda>e. getitem e ''name'') entries) \<longrightarrow>
          (\<forall>e \<in> set entries. \<forall>t i.
              getitem e ''name'' = Inr (PStr (enum_value t)) \<and> getitem e ''id'' = Inr i \<longrightarrow>
              jira_id ?w' t = Some i)"
  proof (intro impI ballI allI)
    fix e t i
    assume "distinct (map (\<lambda>e. getitem e ''name'') entries)" and "e \<in> set entries"
      and "getitem e ''name'' = Inr (PStr (enum_value t)) \<and> getitem e ''id'' = Inr i"
    then have "last_id t entries = Some i"
      using last_id_distinct by blast
    then show "jira_id ?w' t = Some i" by simp
  qed
  have warned: "\<forall>e \<in> set entries. \<forall>n. getitem e ''name'' = Inr n \<and> IssueType_of n = None \<longrightarrow>
          Print (fstr [fmt n, Lit '' is not a known IssueType value'']) \<in> set (stdout ?w')"
    using unknown_warning_printed by auto
  show ?thesis
    using run out ids attached exact warned by blast
qed

theorem issue_type_discovery_witness:
  "fst (get_issue_types source_config ''DW'' discovery_world) = Inr (PList remote_issue_types)
   \<and> stdout (snd (get_issue_types source_config ''DW'' discovery_world)) =
       [Print [Lit ''Spike is not a known IssueType value'']]
   \<and> jira_id (snd (get_issue_types source_config ''DW'' discovery_world)) BUG = Some (PStr ''10004'')
   \<and> jira_id (snd (get_issue_types source_config ''DW'' discovery_world)) EPIC = Some (PStr ''10000'')
   \<and> jira_id (snd (get_issue_types source_config ''DW'' discovery_world)) TASK = None"
proof -
  let ?project = "PDict [(''key'', PStr ''DW''), (''issuetypes'', PList remote_issue_types)]"
  have net: "net discovery_world = Inr (PDict [(''projects'', PList [?project])]) # []"
    by (simp add: discovery_world_def)
  have entries: "list_all named_entry remote_issue_types"
    by (simp add: remote_issue_types_def named_entry_def)
  obtain w' where run: "get_issue_types source_config ''DW'' discovery_world
        = (Inr (PList remote_issue_types), w')"
    and out: "stdout w' = stdout discovery_world @ unknown_warnings remote_issue_types"
    and ids: "\<forall>t. jira_id w' t = (case last_id t remote_issue_types of
                                     None \<Rightarrow> jira_id discovery_world t | Some i \<Rightarrow> Some i)"
    using issue_type_discovery [OF net, where project_key = "''DW''" and projects = "[?project]"
        and project = ?project and entries = remote_issue_types and cfg = source_config]
      entries
    by (auto simp: res_bind_def)
  have "stdout w' = [Print [Lit ''Spike is not a known IssueType value'']]"
    unfolding out
    by (simp add: discovery_world_def quiet_world_def unknown_warnings_def
        remote_issue_types_def members_def fstr_def)
  moreover have "jira_id w' BUG = Some (PStr ''10004'')" "jira_id w' EPIC = Some (PStr ''10000'')"
    "jira_id w' TASK = None"
    using ids
    by (simp_all add: last_id_def remote_issue_types_def discovery_world_def quiet_world_def)
  ultimately show ?thesis unfolding run by simp
qed

section \<open>The confirmation loop\<close>

lemma lower_char_y: "(lower_char c = CHR ''y'') = (c = CHR ''y'' \<or> c = CHR ''Y'')"
proof -
  let ?n = "of_char c :: nat"
  have lt: "?n < 256" by simp
  show ?thesis
  proof (cases "(65 \<le> ?n \<and> ?n \<le> 90) \<or> (192 \<le> ?n \<and> ?n \<le> 214) \<or> (216 \<le> ?n \<and> ?n \<le> 222)")
    case True
    then have small: "?n + 32 < 256" by auto
    have "(char_of (?n + 32) = CHR ''y'') = ((of_char (char_of (?n + 32) :: char) :: nat) = of_char CHR ''y'')"
      by (simp only: of_char_eq_iff)
    also have "\<dots> = (?n + 32 = 121)"
      using small by simp
    also have "\<dots> = (?n = of_char CHR ''Y'')" by auto
    also have "\<dots> = (c = CHR ''Y'')" by (simp only: of_char_eq_iff)
    finally have "(char_of (?n + 32) = CHR ''y'') = (c = CHR ''Y'')" .
    moreover have "c \<noteq> CHR ''y''" using True by auto
    moreover have "lower_char c = char_of (?n + 32)"
      unfolding lower_char_def Let_def using True by (rule if_P)
    ultimately show ?thesis by simp
  next
    case False
    then have "c \<noteq> CHR ''Y''" by auto
    moreover have "lower_char c = c"
      unfolding lower_char_def Let_def using False by (rule if_not_P)
    ultimately show ?thesis by simp
  qed
qed

lemma lower_y: "(lower s = ''y'') = (s = ''y'' \<or> s = ''Y'')"
proof (cases s)
  case Nil
  then show ?thesis by (simp add: lower_def)
next
  case (Cons c cs)
  then show ?thesis by (cases cs) (auto simp: lower_def lower_char_y)
qed

lemma confirmed_iff:
  "confirmed answer = (strip answer = [] \<or> strip answer = ''y'' \<or> strip answer = ''Y'')"
  using lower_y [of "strip answer"] by (auto simp: confirmed_def lower_def)

lemma process_row_asked:
  assumes "ticket_draft project_key epic sprint_id r = Inr kw"
    and "stdin w = answer # later"
  shows "process_row cfg project_key epic sprint_id r w =
     (if confirmed answer
      then io_bind (create_issue cfg (kw_project_key kw) (kw_issue_type kw) (kw_summary kw)
                      PNone (kw_description kw) PNone (kw_epic_key kw) (kw_sprint_id kw))
             (\<lambda>issue_url. print issue_url) (asked kw later w)
      else print [Lit ''Skipping.''] (asked kw later w))"
  using assms
  by (simp add: process_row_def io_bind_def io_result_def print_def pprint_kwargs_def
      py_input_def Let_def asked_def)

lemma create_issue_answer:
  assumes "net w = Inr response # answers" and "getitem response ''key'' = Inr k"
  shows "create_issue cfg pk it summary pr de pa ep sp w =
     (Inr (fstr [Lit (JIRA_BASE_URL cfg), Lit ''/browse/'', fmt k]),
      w\<lparr>sent := sent w @ [POST (credentials cfg)
                             (fstr [Lit (JIRA_BASE_URL cfg), Lit ISSUES_API_ENDPOINT])
                             (PDict [(''fields'', PDict (issue_fields pk it summary pr de pa ep sp))])],
        net := answers\<rparr>)"
  using assms
  by (simp add: create_issue_def http_post_def respond_def io_bind_def io_result_def
      io_return_def Let_def)

lemma sent_io_bind_print:
  "sent (snd (io_bind m (\<lambda>x. print (f x)) w)) = sent (snd (m w))"
  by (simp add: io_bind_def print_def split: prod.splits sum.splits)

lemma process_rows_Cons:
  "process_rows cfg project_key epic sprint_id (r # rows) w =
     (case process_row cfg project_key epic sprint_id r w of
        (Inl e, w1) \<Rightarrow> (Inl e, w1)
      | (Inr u, w1) \<Rightarrow> process_rows cfg project_key epic sprint_id rows w1)"
  unfolding process_rows_def by (simp add: io_bind_def)

lemma asked_fields: "sent (asked kw later w) = sent w" "net (asked kw later w) = net w"
  by (simp_all add: asked_def)

text \<open>
  C7. Take a matching row with its draft, and the operator's answer to the prompt. The
  answer confirms when, stripped of white space, it is empty or is \<^verbatim>\<open>y\<close> or \<^verbatim>\<open>Y\<close>. A
  confirming answer makes the loop body send exactly one request, the POST that creates
  the ticket of this row; when the tracker answers with the key of the new issue, the URL
  of the issue is printed and the loop goes on with the remaining rows. Any other answer
  sends nothing, prints \<^verbatim>\<open>Skipping.\<close> and the loop goes on with the remaining rows.
\<close>

theorem confirmation_step:
  assumes "ticket_draft project_key epic sprint_id r = Inr kw"
    and "stdin w = answer # later"
  shows "confirmed answer = (strip answer = [] \<or> strip answer = ''y'' \<or> strip answer = ''Y'')
    \<and> (confirmed answer \<longrightarrow>
          sent (snd (process_row cfg project_key epic sprint_id r w))
            = sent w @ [ticket_request cfg kw])
    \<and> (confirmed answer \<longrightarrow>
          (\<forall>response answers k.
              net w = Inr response # answers \<and> getitem response ''key'' = Inr k \<longrightarrow>
              process_rows cfg project_key epic sprint_id (r # rows) w =
                process_rows cfg project_key epic sprint_id rows
                  ((asked kw later w)
                     \<lparr>sent := sent w @ [ticket_request cfg kw], net := answers,
                      stdout := stdout (asked kw later w)
                                @ [Print (fstr [Lit (JIRA_BASE_URL cfg), Lit ''/browse/'',
                                                fmt k])]\<rparr>)))
    \<and> (\<not> confirmed answer \<longrightarrow>
          process_rows cfg project_key epic sprint_id (r # rows) w =
            process_rows cfg project_key epic sprint_id rows
              ((asked kw later w)
                 \<lparr>stdout := stdout (asked kw later w) @ [Print [Lit ''Skipping.'']]\<rparr>))"
proof (intro conjI impI allI)
  show "confirmed answer = (strip answer = [] \<or> strip answer = ''y'' \<or> strip answer = ''Y'')"
    by (rule confirmed_iff)
next
  assume yes: "confirmed answer"
  show "sent (snd (process_row cfg project_key epic sprint_id r w)) = sent w @ [ticket_request cfg kw]"
    unfolding process_row_asked [OF assms] using yes
    by (simp add: sent_io_bind_print create_issue_sent ticket_request_def asked_fields)
next
  fix response answers k
  assume yes: "confirmed answer"
    and net: "net w = Inr response # answers \<and> getitem response ''key'' = Inr k"
  have n: "net (asked kw later w) = Inr response # answers"
    using net by (simp add: asked_fields)
  have k: "getitem response ''key'' = Inr k" using net by simp
  have "process_row cfg project_key epic sprint_id r w =
      (Inr (), (asked kw later w)
                     \<lparr>sent := sent w @ [ticket_request cfg kw], net := answers,
                      stdout := stdout (asked kw later w)
                                @ [Print (fstr [Lit (JIRA_BASE_URL cfg), Lit ''/browse/'',
                                                fmt k])]\<rparr>)"
    unfolding process_row_asked [OF assms] using yes
    by (simp add: io_bind_def create_issue_answer [OF n k] print_def ticket_request_def
        asked_fields)
  then show "process_rows cfg project_key epic sprint_id (r # rows) w =
                process_rows cfg project_key epic sprint_id rows
                  ((asked kw later w)
                     \<lparr>sent := sent w @ [ticket_request cfg kw], net := answers,
                      stdout := stdout (asked kw later w)
                                @ [Print (fstr [Lit (JIRA_BASE_URL cfg), Lit ''/browse/'',
                                                fmt k])]\<rparr>)"
    by (simp add: process_rows_Cons)
next
  assume no: "\<not> confirmed answer"
  have "process_row cfg project_key epic sprint_id r w =
      (Inr (), (asked kw later w)
                 \<lparr>stdout := stdout (asked kw later w) @ [Print [Lit ''Skipping.'']]\<rparr>)"
    unfolding process_row_asked [OF assms] using no by (simp add: print_def)
  then show "process_rows cfg project_key epic sprint_id (r # rows) w =
            process_rows cfg project_key epic sprint_id rows
              ((asked kw later w)
                 \<lparr>stdout := stdout (asked kw later w) @ [Print [Lit ''Skipping.'']]\<rparr>)"
    by (simp add: process_rows_Cons)
qed

lemma strip_examples: "strip '' Y'' = ''Y''" "strip ''no'' = ''no''"
  by (simp_all add: strip_def isspace_def Let_def)

theorem confirmation_step_witness:
  "process_rows source_config ''DW'' None PNone [login_row, crash_row] ticket_world =
     (Inr (),
      quiet_world
        \<lparr>sent := [ticket_request source_config login_draft],
         stdout := [Print [Lit (nl # ''Create a bug with the following data?'')],
                    PPrintKwargs login_draft, Prompt ''Y/n > '',
                    Print [Lit ''https://joinhonor.atlassian.net/browse/DW-100''],
                    Print [Lit (nl # ''Create a bug with the following data?'')],
                    PPrintKwargs crash_draft, Prompt ''Y/n > '',
                    Print [Lit ''Skipping.'']]\<rparr>)"
proof -
  let ?w1 = "(asked login_draft [''no''] ticket_world)
               \<lparr>sent := sent ticket_world @ [ticket_request source_config login_draft],
                net := [],
                stdout := stdout (asked login_draft [''no''] ticket_world)
                          @ [Print (fstr [Lit (JIRA_BASE_URL source_config), Lit ''/browse/'',
                                          fmt (PStr ''DW-100'')])]\<rparr>"
  let ?w2 = "(asked crash_draft [] ?w1)
               \<lparr>stdout := stdout (asked crash_draft [] ?w1) @ [Print [Lit ''Skipping.'']]\<rparr>"
  have d1: "ticket_draft ''DW'' None PNone login_row = Inr login_draft"
    by (simp add: ticket_draft_def login_row_def login_draft_def row_get_def res_bind_def
        provided_def iadd_def opt_def Let_def)
  have d2: "ticket_draft ''DW'' None PNone crash_row = Inr crash_draft"
    by (simp add: ticket_draft_def crash_row_def crash_draft_def row_get_def res_bind_def
        provided_def iadd_def opt_def Let_def)
  have in1: "stdin ticket_world = '' Y'' # [''no'']"
    by (simp add: ticket_world_def)
  have in2: "stdin ?w1 = ''no'' # []"
    by (simp add: asked_def)
  note first = confirmation_step [OF d1 in1, where cfg = source_config and rows = "[crash_row]"]
  note second = confirmation_step [OF d2 in2, where cfg = source_config and rows = "[]"]
  have yes: "confirmed '' Y''" using first by (simp add: strip_examples)
  have no: "\<not> confirmed ''no''" using second by (simp add: strip_examples)
  have "net ticket_world = Inr (PDict [(''key'', PStr ''DW-100'')]) # []
      \<and> getitem (PDict [(''key'', PStr ''DW-100'')]) ''key'' = Inr (PStr ''DW-100'')"
    by (simp add: ticket_world_def)
  with first yes
  have step1: "process_rows source_config ''DW'' None PNone [login_row, crash_row] ticket_world =
      process_rows source_config ''DW'' None PNone [crash_row] ?w1"
    by blast
  have step2: "process_rows source_config ''DW'' None PNone [crash_row] ?w1 =
      process_rows source_config ''DW'' None PNone [] ?w2"
    using second no by blast
  have step3: "process_rows source_config ''DW'' None PNone [] ?w2 = (Inr (), ?w2)"
    by (simp add: process_rows_def io_return_def)
  have "?w2 = quiet_world
        \<lparr>sent := [ticket_request source_config login_draft],
         stdout := [Print [Lit (nl # ''Create a bug with the following data?'')],
                    PPrintKwargs login_draft, Prompt ''Y/n > '',
                    Print [Lit ''https://joinhonor.atlassian.net/browse/DW-100''],
                    Print [Lit (nl # ''Create a bug with the following data?'')],
                    PPrintKwargs crash_draft, Prompt ''Y/n > '',
                    Print [Lit ''Skipping.'']]\<rparr>"
    by (simp add: asked_def ticket_world_def quiet_world_def source_config_def fstr_def)
  with step1 step2 step3 show ?thesis by simp
qed

end
